theory Spec2Isabelle
  imports Complex_Main "HOL-Library.Multiset"
begin

section \<open>Strings\<close>

text \<open>
  A Go string is a byte sequence; it is modelled as \<^typ>\<open>string\<close> (a list of bytes).
  \<open>HasPrefix\<close> and \<open>Contains\<close> are \<open>strings.HasPrefix\<close> and \<open>strings.Contains\<close>.
  \<open>ToLower\<close> is \<open>strings.ToLower\<close> on its ASCII range: the bytes \<open>A\<close>..\<open>Z\<close> are mapped to
  \<open>a\<close>..\<open>z\<close>, every other byte is kept (the case mapping of code points beyond ASCII is not
  modelled; the deny list of the filter is ASCII).
\<close>

fun HasPrefix :: "'a list \<Rightarrow> 'a list \<Rightarrow> bool" where
  "HasPrefix s [] = True"
| "HasPrefix [] (p # ps) = False"
| "HasPrefix (c # s) (p # ps) = (c = p \<and> HasPrefix s ps)"

fun Contains :: "'a list \<Rightarrow> 'a list \<Rightarrow> bool" where
  "Contains [] sub = (sub = [])"
| "Contains (c # s) sub = (HasPrefix (c # s) sub \<or> Contains s sub)"

definition to_lower_byte :: "char \<Rightarrow> char" where
  "to_lower_byte c =
     (let n = (of_char c :: nat) in if 65 \<le> n \<and> n \<le> 90 then char_of (n + 32) else c)"

definition ToLower :: "string \<Rightarrow> string" where
  "ToLower s = map to_lower_byte s"

section \<open>Safety filter (internal/monitor/filter.go)\<close>

record Trend =
  Source :: string
  ExternalID :: string
  Title :: string
  URL :: string
  Description :: string
  Score :: int

definition SensitiveTopics :: "string list" where
  "SensitiveTopics =
    [''trump'', ''biden'', ''obama'', ''clinton'', ''putin'', ''xi jinping'',
     ''maga'', ''democrat'', ''republican'', ''liberal'', ''conservative'',
     ''abortion'', ''pro-life'', ''pro-choice'',
     ''gun control'', ''second amendment'', ''2nd amendment'',
     ''immigration'', ''border'', ''deportation'',
     ''lgbtq'', ''transgender'', ''gay rights'',
     ''shooting'', ''massacre'', ''terrorist'', ''terrorism'',
     ''murder'', ''killed'', ''death toll'', ''casualties'',
     ''suicide'', ''self-harm'',
     ''atheism'', ''christian'', ''muslim'', ''jewish'', ''religion debate'',
     ''nsfw'', ''porn'', ''sex'', ''nude'',
     ''racist'', ''racism'', ''nazi'', ''white supremac'', ''hate crime'',
     ''ukraine'', ''russia war'', ''gaza'', ''israel'', ''hamas'',
     ''qanon'', ''deep state'', ''illuminati'', ''flat earth'',
     ''anti-vax'', ''plandemic'']"

record Filter =
  sensitiveTerms :: "string list"
  minScore :: int

record FilterConfig =
  AdditionalTerms :: "string list"
  MinScore :: int

record FilterResult =
  Pass :: bool
  Reason :: string

definition NewFilter :: "FilterConfig \<Rightarrow> Filter" where
  "NewFilter cfg =
     \<lparr>sensitiveTerms = map ToLower (SensitiveTopics @ AdditionalTerms cfg),
      minScore = MinScore cfg\<rparr>"

definition Check :: "Filter \<Rightarrow> Trend \<Rightarrow> FilterResult" where
  "Check f trend =
     (if minScore f > 0 \<and> Score trend < minScore f
      then \<lparr>Pass = False, Reason = ''score below threshold''\<rparr>
      else
        (let text = ToLower (Title trend @ '' '' @ Description trend) in
         case find (\<lambda>term. Contains text term) (sensitiveTerms f) of
           Some term \<Rightarrow> \<lparr>Pass = False, Reason = ''contains sensitive topic: '' @ term\<rparr>
         | None \<Rightarrow> \<lparr>Pass = True, Reason = ''''\<rparr>))"

text \<open>The loop of \<open>FilterTrends\<close> appends every trend that passes, in input order.\<close>

fun FilterTrends_loop :: "Filter \<Rightarrow> Trend list \<Rightarrow> Trend list \<Rightarrow> Trend list" where
  "FilterTrends_loop f [] result = result"
| "FilterTrends_loop f (trend # trends) result =
     (if Pass (Check f trend)
      then FilterTrends_loop f trends (result @ [trend])
      else FilterTrends_loop f trends result)"

definition FilterTrends :: "Filter \<Rightarrow> Trend list \<Rightarrow> Trend list" where
  "FilterTrends f trends = FilterTrends_loop f trends []"

text \<open>Example inputs: a configuration with a score threshold and three trends.\<close>

definition filter_cfg_example :: FilterConfig where
  "filter_cfg_example = \<lparr>AdditionalTerms = [''Crypto''], MinScore = 150\<rparr>"

definition trend_denylisted :: Trend where
  "trend_denylisted = \<lparr>Source = ''test'', ExternalID = ''2'', Title = ''Trump did something'',
     URL = '''', Description = '''', Score = 200\<rparr>"

definition trend_low_score :: Trend where
  "trend_low_score = \<lparr>Source = ''test'', ExternalID = ''1'', Title = ''Normal topic'',
     URL = '''', Description = '''', Score = 100\<rparr>"

definition trend_ok :: Trend where
  "trend_ok = \<lparr>Source = ''test'', ExternalID = ''3'', Title = ''Philosophy discussion'',
     URL = '''', Description = ''On the CRYPT of St. Peter'', Score = 150\<rparr>"

definition filter_cfg_negative :: FilterConfig where
  "filter_cfg_negative = \<lparr>AdditionalTerms = [], MinScore = - 5\<rparr>"

definition trend_negative_score :: Trend where
  "trend_negative_score = \<lparr>Source = ''test'', ExternalID = ''4'', Title = ''Normal topic'',
     URL = '''', Description = '''', Score = - 10\<rparr>"

section \<open>Errors\<close>

text \<open>
  A Go \<open>error\<close> value is modelled by its message, a run-time panic by its reason. A function
  that can fail returns \<open>error + 'a\<close>, with \<open>Inl\<close> for the failure.
\<close>

datatype error = Error string | Panic string

section \<open>Embeddings (internal/embedder/embedder.go)\<close>

text \<open>
  The components of an embedding are \<open>float32\<close> values and the sums are computed in
  \<open>float64\<close>. Both are modelled as \<^typ>\<open>real\<close>: rounding, infinities and NaN are not modelled.
  The guards of the code (the length test and the tests for a zero norm) are exact in both.
\<close>

fun cosine_loop :: "real list \<Rightarrow> real list \<Rightarrow> real \<times> real \<times> real \<Rightarrow> real \<times> real \<times> real" where
  "cosine_loop (x # a) (y # b) (dotProduct, normA, normB) =
     cosine_loop a b (dotProduct + x * y, normA + x * x, normB + y * y)"
| "cosine_loop a b acc = acc"

definition CosineSimilarity :: "real list \<Rightarrow> real list \<Rightarrow> real" where
  "CosineSimilarity a b =
     (if length a \<noteq> length b then 0
      else
        (case cosine_loop a b (0, 0, 0) of
           (dotProduct, normA, normB) \<Rightarrow>
             if normA = 0 \<or> normB = 0 then 0
             else dotProduct / (sqrt normA * sqrt normB)))"

definition Normalize :: "real list \<Rightarrow> real list" where
  "Normalize embedding =
     (let norm = foldl (\<lambda>norm v. norm + v * v) 0 embedding in
      if norm = 0 then embedding
      else map (\<lambda>v. v / sqrt norm) embedding)"

section \<open>Quotes\<close>

text \<open>
  A row of the table \<open>quotes\<close>, with the columns the matching and posting code reads.
  A nullable column (\<open>sql.NullString\<close>) is an \<open>option\<close>.
\<close>

record Quote =
  QuoteID :: int
  Text :: string
  SourceBook :: string
  Character :: "string option"
  Themes :: string
  TimesPosted :: int
  LastPostedAt :: "nat option"

section \<open>The library function sort.Slice\<close>

text \<open>
  \<open>sort.Slice\<close> belongs to the Go standard library, not to the repository. The functions that
  call it take it as the parameter \<open>srt\<close>, and what the library documents about it is the
  predicate \<open>sort_Slice_contract\<close>: for a comparison \<open>lt\<close> (the argument \<open>less\<close> of the
  library) that is a transitive ordering, the result is a permutation of the input in which no
  element has to sort before an earlier one. The library documents that the sort is not
  guaranteed to be stable.

  \<open>insertion_sort\<close> (stable) and \<open>reversing_sort\<close> (it reverses the order of equal elements) are
  two sorting functions that satisfy the contract.
\<close>

definition transitive_ordering :: "('a \<Rightarrow> 'a \<Rightarrow> bool) \<Rightarrow> bool" where
  "transitive_ordering lt \<longleftrightarrow>
     (\<forall>x. \<not> lt x x)
     \<and> (\<forall>x y z. lt x y \<and> lt y z \<longrightarrow> lt x z)
     \<and> (\<forall>x y z. \<not> lt x y \<and> \<not> lt y z \<longrightarrow> \<not> lt x z)"

definition sort_Slice_contract :: "(('a \<Rightarrow> 'a \<Rightarrow> bool) \<Rightarrow> 'a list \<Rightarrow> 'a list) \<Rightarrow> bool" where
  "sort_Slice_contract srt \<longleftrightarrow>
     (\<forall>lt xs. transitive_ordering lt \<longrightarrow>
        mset (srt lt xs) = mset xs \<and> sorted_wrt (\<lambda>a b. \<not> lt b a) (srt lt xs))"

fun insort_by :: "('a \<Rightarrow> 'a \<Rightarrow> bool) \<Rightarrow> 'a \<Rightarrow> 'a list \<Rightarrow> 'a list" where
  "insort_by lt x [] = [x]"
| "insort_by lt x (y # ys) = (if lt x y then x # y # ys else y # insort_by lt x ys)"

definition insertion_sort :: "('a \<Rightarrow> 'a \<Rightarrow> bool) \<Rightarrow> 'a list \<Rightarrow> 'a list" where
  "insertion_sort lt xs = foldl (\<lambda>acc x. insort_by lt x acc) [] xs"

definition reversing_sort :: "('a \<Rightarrow> 'a \<Rightarrow> bool) \<Rightarrow> 'a list \<Rightarrow> 'a list" where
  "reversing_sort lt xs = insertion_sort lt (rev xs)"

section \<open>In-memory vector index (package matcher)\<close>

record VectorMatch =
  Quote :: Quote
  Similarity :: real

record VectorIndex =
  quotes :: "Quote list"
  embeddings :: "real list list"

definition NewVectorIndex :: "(Quote \<times> real list) list \<Rightarrow> VectorIndex" where
  "NewVectorIndex quotesWithEmbed =
     \<lparr>quotes = map fst quotesWithEmbed,
      embeddings = map (\<lambda>qe. Normalize (snd qe)) quotesWithEmbed\<rparr>"

definition Size :: "VectorIndex \<Rightarrow> nat" where
  "Size v = length (quotes v)"

text \<open>
  \<open>Search\<close>. The slice \<open>scores\<close> has one entry per quote; the loop over the embeddings fills
  entry \<open>i\<close>, so an embedding with no quote is an index out of range, and a quote with no
  embedding keeps the zero entry (index 0, similarity 0). \<open>make\<close> panics on a negative length.
\<close>

definition search_less :: "nat \<times> real \<Rightarrow> nat \<times> real \<Rightarrow> bool" where
  "search_less a b \<longleftrightarrow> snd a > snd b"

definition Search ::
  "((nat \<times> real \<Rightarrow> nat \<times> real \<Rightarrow> bool) \<Rightarrow> (nat \<times> real) list \<Rightarrow> (nat \<times> real) list)
   \<Rightarrow> VectorIndex \<Rightarrow> real list \<Rightarrow> int \<Rightarrow> error + VectorMatch list" where
  "Search srt v queryEmbed k =
     (if length (quotes v) = 0 then Inr []
      else if length (embeddings v) > length (quotes v) then Inl (Panic ''index out of range'')
      else
        (let normalizedQuery = Normalize queryEmbed;
             scores =
               map (\<lambda>(i, emb). (i, CosineSimilarity normalizedQuery emb))
                 (enumerate 0 (embeddings v))
               @ replicate (length (quotes v) - length (embeddings v)) (0, 0);
             scores = srt search_less scores;
             k = (if k > int (length scores) then int (length scores) else k)
         in if k < 0 then Inl (Panic ''makeslice: len out of range'')
            else Inr (map (\<lambda>(i, s). \<lparr>Quote = quotes v ! i, Similarity = s\<rparr>)
                        (take (nat k) scores))))"

text \<open>
  \<open>SearchWithThreshold\<close>. The loop reads \<open>v.quotes[i]\<close> only for an embedding that reaches the
  threshold; that read is out of range when the embedding has no quote.
\<close>

fun threshold_loop ::
  "Quote list \<Rightarrow> real list \<Rightarrow> real \<Rightarrow> (nat \<times> real list) list \<Rightarrow> VectorMatch list
   \<Rightarrow> error + VectorMatch list" where
  "threshold_loop qs normalizedQuery threshold [] results = Inr results"
| "threshold_loop qs normalizedQuery threshold ((i, emb) # rest) results =
     (let sim = CosineSimilarity normalizedQuery emb in
      if sim \<ge> threshold then
        (if i < length qs
         then threshold_loop qs normalizedQuery threshold rest
                (results @ [\<lparr>Quote = qs ! i, Similarity = sim\<rparr>])
         else Inl (Panic ''index out of range''))
      else threshold_loop qs normalizedQuery threshold rest results)"

definition match_less :: "VectorMatch \<Rightarrow> VectorMatch \<Rightarrow> bool" where
  "match_less a b \<longleftrightarrow> Similarity a > Similarity b"

definition SearchWithThreshold ::
  "((VectorMatch \<Rightarrow> VectorMatch \<Rightarrow> bool) \<Rightarrow> VectorMatch list \<Rightarrow> VectorMatch list)
   \<Rightarrow> VectorIndex \<Rightarrow> real list \<Rightarrow> real \<Rightarrow> int \<Rightarrow> error + VectorMatch list" where
  "SearchWithThreshold srt v queryEmbed threshold maxResults =
     (if length (quotes v) = 0 then Inr []
      else
        (case threshold_loop (quotes v) (Normalize queryEmbed) threshold
                (enumerate 0 (embeddings v)) [] of
           Inl e \<Rightarrow> Inl e
         | Inr results \<Rightarrow>
             (let results = srt match_less results in
              if maxResults > 0 \<and> int (length results) > maxResults
              then Inr (take (nat maxResults) results)
              else Inr results)))"

text \<open>
  \<open>all_matches\<close> is not a function of the source: it names every quote of the index paired
  with its similarity to the query, in insertion order, for the statements below.
\<close>

definition all_matches :: "VectorIndex \<Rightarrow> real list \<Rightarrow> VectorMatch list" where
  "all_matches v queryEmbed =
     map (\<lambda>(q, emb). \<lparr>Quote = q, Similarity = CosineSimilarity (Normalize queryEmbed) emb\<rparr>)
       (zip (quotes v) (embeddings v))"

text \<open>
  Example inputs: three quotes and an index over them; thirteen numbered quotes and an index
  over them in which the quotes 0 and 6 have the same similarity to the query \<open>[1, 0]\<close>.
\<close>

definition quote1 :: Quote where
  "quote1 = \<lparr>QuoteID = 1, Text = ''Quote 1'', SourceBook = ''The Idiot'', Character = None,
     Themes = ''[]'', TimesPosted = 0, LastPostedAt = None\<rparr>"

definition quote2 :: Quote where
  "quote2 = \<lparr>QuoteID = 2, Text = ''Quote 2'', SourceBook = ''Demons'', Character = None,
     Themes = ''[]'', TimesPosted = 0, LastPostedAt = None\<rparr>"

definition quote3 :: Quote where
  "quote3 = \<lparr>QuoteID = 3, Text = ''Quote 3'', SourceBook = ''The Gambler'', Character = None,
     Themes = ''[]'', TimesPosted = 0, LastPostedAt = None\<rparr>"

definition index_example :: VectorIndex where
  "index_example = NewVectorIndex [(quote1, [1, 0, 0]), (quote2, [0, 1, 0]), (quote3, [3 / 5, 4 / 5, 0])]"

definition numbered_quote :: "int \<Rightarrow> Quote" where
  "numbered_quote n = \<lparr>QuoteID = n, Text = ''A quote'', SourceBook = ''Demons'', Character = None,
     Themes = ''[]'', TimesPosted = 0, LastPostedAt = None\<rparr>"

definition index_thirteen :: VectorIndex where
  "index_thirteen = NewVectorIndex
     [(numbered_quote 0, [3 / 5, 4 / 5]), (numbered_quote 1, [1, 0]),
      (numbered_quote 2, [24 / 25, 7 / 25]), (numbered_quote 3, [4 / 5, 3 / 5]),
      (numbered_quote 4, [12 / 13, 5 / 13]), (numbered_quote 5, [15 / 17, 8 / 17]),
      (numbered_quote 6, [3 / 5, - 4 / 5]), (numbered_quote 7, [21 / 29, 20 / 29]),
      (numbered_quote 8, [20 / 29, 21 / 29]), (numbered_quote 9, [5 / 13, 12 / 13]),
      (numbered_quote 10, [8 / 17, 15 / 17]), (numbered_quote 11, [7 / 25, 24 / 25]),
      (numbered_quote 12, [0, 1])]"

section \<open>Post formatter (internal/poster/formatter.go)\<close>

text \<open>
  \<open>TruncateQuote\<close> counts runes (\<open>utf8.RuneCountInString\<close>, \<open>[]rune\<close>) and bytes (\<open>len\<close>,
  \<open>strings.LastIndex\<close>, slicing of a string), so a string is modelled here as the list of its
  runes, a rune being its code point. \<open>RuneLen\<close> is the number of bytes of a rune in UTF-8 and
  \<open>byte_len\<close> is \<open>len\<close> of a string. \<open>runes\<close> gives the runes of an ASCII literal.
  Go's \<open>int\<close> is modelled as \<^typ>\<open>int\<close>: lengths are far from the 64-bit range.
\<close>

type_synonym rune = nat

definition runes :: "string \<Rightarrow> rune list" where
  "runes s = map of_char s"

definition RuneLen :: "rune \<Rightarrow> nat" where
  "RuneLen r = (if r < 128 then 1 else if r < 2048 then 2 else if r < 65536 then 3 else 4)"

definition byte_len :: "rune list \<Rightarrow> nat" where
  "byte_len s = sum_list (map RuneLen s)"

definition space :: rune where
  "space = 32"

text \<open>
  \<open>strings.LastIndex(s, " ")\<close>: the byte offset of the last space of \<open>s\<close>, or \<open>-1\<close>. The loop
  walks the runes with the byte offset of the current rune and the last offset found.
\<close>

fun last_index_loop :: "rune list \<Rightarrow> nat \<Rightarrow> int \<Rightarrow> int" where
  "last_index_loop [] off found = found"
| "last_index_loop (r # rs) off found =
     last_index_loop rs (off + RuneLen r) (if r = space then int off else found)"

definition LastIndex_space :: "rune list \<Rightarrow> int" where
  "LastIndex_space s = last_index_loop s 0 (- 1)"

text \<open>The string slice \<open>s[:n]\<close> for a byte offset \<open>n\<close>: the runes that end at or before \<open>n\<close>.\<close>

fun take_bytes :: "nat \<Rightarrow> rune list \<Rightarrow> rune list" where
  "take_bytes n [] = []"
| "take_bytes n (r # rs) = (if RuneLen r \<le> n then r # take_bytes (n - RuneLen r) rs else [])"

definition TrimRight :: "rune list \<Rightarrow> rune list \<Rightarrow> rune list" where
  "TrimRight s cutset = rev (dropWhile (\<lambda>r. r \<in> set cutset) (rev s))"

definition trim_cutset :: "rune list" where
  "trim_cutset = runes '' .,;:!?''"

definition TruncateQuote :: "rune list \<Rightarrow> int \<Rightarrow> rune list \<Rightarrow> error + rune list" where
  "TruncateQuote quote maxLen attribution =
     (let overhead = 4 + int (byte_len attribution) + 4;
          available = maxLen - overhead
      in if int (length quote) \<le> available + 3 then Inr quote
         else if int (length quote) \<le> available then Inr quote
         else if available < 0 then Inl (Panic ''slice bounds out of range'')
         else
           (let truncated = take (nat available) quote;
                lastSpace = LastIndex_space truncated;
                truncated = (if lastSpace > available div 2
                             then take_bytes (nat lastSpace) truncated else truncated)
            in Inr (TrimRight truncated trim_cutset @ runes ''...'')))"

text \<open>Example input: a quote whose only space in the truncation range is near its start.\<close>

definition quote_early_space :: "rune list" where
  "quote_early_space = runes ''ab cdefghijklmnopqrstuvwxyz''"

definition quote_words :: "rune list" where
  "quote_words = runes ''Word1 word2 word3 word4 word5 word6 word7 word8''"

definition quote_no_space :: "rune list" where
  "quote_no_space = runes ''abcdefghijklmnopqrstuvwxyz''"

definition attribution_book :: "rune list" where
  "attribution_book = 8212 # runes '' Book''"

section \<open>Primary store (the schema and the queries of package db)\<close>

text \<open>
  The store is modelled from the SQL of the repository: the tables \<open>trends\<close>, \<open>posts\<close> and
  \<open>quotes\<close> as lists of rows in insertion order, a nullable column as an \<open>option\<close>. Time stamps
  are seconds; \<open>now\<close> is the clock of the database. A query can fail for reasons outside the
  data (a lost connection, a locked file): \<open>faults\<close> lists the queries that fail at present,
  and such a query returns an error and changes nothing.
\<close>

definition ErrNoRows :: error where
  "ErrNoRows = Error ''sql: no rows in result set''"

text \<open>\<open>fmt.Errorf("ctx: %w", err)\<close>: the message is prefixed.\<close>

fun wrap :: "string \<Rightarrow> error \<Rightarrow> error" where
  "wrap ctx (Error m) = Error (ctx @ '': '' @ m)"
| "wrap ctx (Panic m) = Panic m"

record DbTrend =
  TrendID :: int
  TrendSource :: string
  TrendExternalID :: "string option"
  TrendTitle :: string
  TrendUrl :: "string option"
  TrendDescription :: "string option"
  TrendScore :: "int option"
  Matched :: bool
  Skipped :: bool
  SkipReason :: "string option"
  DetectedAt :: nat

record DbPost =
  PostRowID :: int
  PostQuoteID :: int
  Platform :: string
  PlatformPostID :: "string option"
  PostUrl :: "string option"
  PostTrendID :: "int option"
  PostTrendTitle :: string
  PostTrendSource :: string
  TrendHash :: string
  PostRelevanceScore :: real
  PostRelevanceReasoning :: "string option"
  PostVectorSimilarity :: real
  PostedAt :: nat

text \<open>
  The column \<open>embedding\<close> of a quote: \<open>NULL\<close>, a blob of \<open>4 * n\<close> bytes that decodes to \<open>n\<close>
  numbers, or a blob whose length is not a multiple of 4.
\<close>

datatype embedding_blob = NullBlob | Floats "real list" | Malformed

record Store =
  trends_tbl :: "DbTrend list"
  posts_tbl :: "DbPost list"
  quotes_tbl :: "(Quote \<times> embedding_blob) list"
  now :: nat
  faults :: "string list"

definition db_error :: error where
  "db_error = Error ''database is unavailable''"

definition next_id :: "int list \<Rightarrow> int" where
  "next_id ids = 1 + foldl max 0 ids"

text \<open>\<open>SELECT * FROM trends WHERE source = ? AND external_id = ? LIMIT 1\<close>.
  A comparison with \<open>NULL\<close> is never true.\<close>

definition GetTrendBySourceAndExternalID ::
  "Store \<Rightarrow> string \<Rightarrow> string option \<Rightarrow> error + DbTrend" where
  "GetTrendBySourceAndExternalID st source external_id =
     (if ''GetTrendBySourceAndExternalID'' \<in> set (faults st) then Inl db_error
      else
        (case find (\<lambda>r. TrendSource r = source \<and> external_id \<noteq> None
                          \<and> TrendExternalID r = external_id) (trends_tbl st) of
           None \<Rightarrow> Inl ErrNoRows
         | Some r \<Rightarrow> Inr r))"

text \<open>
  \<open>INSERT INTO trends (source, external_id, title, url, description, score)\<close>, under the
  unique index \<open>idx_trends_source_external\<close> on \<open>(source, external_id)\<close>: two rows whose
  \<open>external_id\<close> is \<open>NULL\<close> never collide.
\<close>

record CreateTrendParams =
  ParamSource :: string
  ParamExternalID :: "string option"
  ParamTitle :: string
  ParamUrl :: "string option"
  ParamDescription :: "string option"
  ParamScore :: "int option"

definition CreateTrend :: "Store \<Rightarrow> CreateTrendParams \<Rightarrow> (error + DbTrend) \<times> Store" where
  "CreateTrend st p =
     (if ''CreateTrend'' \<in> set (faults st) then (Inl db_error, st)
      else if ParamExternalID p \<noteq> None
              \<and> (\<exists>r\<in>set (trends_tbl st). TrendSource r = ParamSource p
                                       \<and> TrendExternalID r = ParamExternalID p)
      then (Inl (Error ''UNIQUE constraint failed: trends.source, trends.external_id''), st)
      else
        (let row = \<lparr>TrendID = next_id (map TrendID (trends_tbl st)),
                    TrendSource = ParamSource p, TrendExternalID = ParamExternalID p,
                    TrendTitle = ParamTitle p, TrendUrl = ParamUrl p,
                    TrendDescription = ParamDescription p, TrendScore = ParamScore p,
                    Matched = False, Skipped = False, SkipReason = None,
                    DetectedAt = now st\<rparr>
         in (Inr row, st\<lparr>trends_tbl := trends_tbl st @ [row]\<rparr>)))"

section \<open>Trend aggregator (internal/monitor/aggregator.go)\<close>

text \<open>
  A monitor is an external source: it is modelled by its name and by what \<open>FetchTrends\<close>
  answers in the cycle at hand. The aggregator points to the store, which is passed as state.
\<close>

record Monitor =
  Name :: string
  FetchTrends :: "error + Trend list"

record Aggregator =
  monitors :: "Monitor list"
  agg_filter :: Filter

definition null_string :: "string \<Rightarrow> string option" where
  "null_string s = (if s \<noteq> [] then Some s else None)"

definition storeTrend :: "Store \<Rightarrow> Trend \<Rightarrow> (error + bool) \<times> Store" where
  "storeTrend st trend =
     (case GetTrendBySourceAndExternalID st (Source trend) (Some (ExternalID trend)) of
        Inr existing \<Rightarrow> (Inr False, st)
      | Inl err \<Rightarrow>
          if err \<noteq> ErrNoRows then (Inl (wrap ''check existing'' err), st)
          else
            (case CreateTrend st
                    \<lparr>ParamSource = Source trend,
                     ParamExternalID = null_string (ExternalID trend),
                     ParamTitle = Title trend,
                     ParamUrl = null_string (URL trend),
                     ParamDescription = null_string (Description trend),
                     ParamScore = Some (Score trend)\<rparr> of
               (Inl err, st') \<Rightarrow> (Inl (wrap ''create trend'' err), st')
             | (Inr created, st') \<Rightarrow> (Inr True, st')))"

fun fetch_loop :: "Monitor list \<Rightarrow> Trend list \<Rightarrow> Trend list" where
  "fetch_loop [] allTrends = allTrends"
| "fetch_loop (monitor # rest) allTrends =
     (case FetchTrends monitor of
        Inl err \<Rightarrow> fetch_loop rest allTrends
      | Inr trends \<Rightarrow> fetch_loop rest (allTrends @ trends))"

fun store_loop :: "Store \<Rightarrow> Trend list \<Rightarrow> Trend list \<Rightarrow> Trend list \<times> Store" where
  "store_loop st [] newTrends = (newTrends, st)"
| "store_loop st (trend # rest) newTrends =
     (case storeTrend st trend of
        (Inl err, st') \<Rightarrow> store_loop st' rest newTrends
      | (Inr isNew, st') \<Rightarrow>
          store_loop st' rest (if isNew then newTrends @ [trend] else newTrends))"

definition FetchAndStore :: "Aggregator \<Rightarrow> Store \<Rightarrow> (error + Trend list) \<times> Store" where
  "FetchAndStore a st =
     (let allTrends = fetch_loop (monitors a) [];
          filtered = FilterTrends (agg_filter a) allTrends;
          (newTrends, st') = store_loop st filtered []
      in (Inr newTrends, st'))"

text \<open>
  \<open>rows_for\<close> is not a function of the source: the persisted rows with the source and the
  external identifier of a trend, for the statements below.
\<close>

definition rows_for :: "Store \<Rightarrow> string \<Rightarrow> string option \<Rightarrow> DbTrend list" where
  "rows_for st source external_id =
     filter (\<lambda>r. TrendSource r = source \<and> TrendExternalID r = external_id) (trends_tbl st)"

text \<open>Example inputs: an empty store, a trend with an external identifier and one without.\<close>

definition empty_store :: Store where
  "empty_store = \<lparr>trends_tbl = [], posts_tbl = [], quotes_tbl = [], now = 1700000000, faults = []\<rparr>"

definition trend_hn :: Trend where
  "trend_hn = \<lparr>Source = ''hackernews'', ExternalID = ''42'', Title = ''Show HN: a thing'',
     URL = ''https://example.org'', Description = '''', Score = 120\<rparr>"

definition trend_no_id :: Trend where
  "trend_no_id = \<lparr>Source = ''manual'', ExternalID = '''', Title = ''A topic'',
     URL = '''', Description = '''', Score = 10\<rparr>"

definition aggregator_example :: Aggregator where
  "aggregator_example =
     \<lparr>monitors = [\<lparr>Name = ''hackernews'', FetchTrends = Inr [trend_hn]\<rparr>,
                  \<lparr>Name = ''reddit'', FetchTrends = Inl (Error ''timeout'')\<rparr>],
      agg_filter = NewFilter \<lparr>AdditionalTerms = [], MinScore = 0\<rparr>\<rparr>"

section \<open>Relevance selector (package matcher, with internal/matcher/prompts.go)\<close>

text \<open>
  The text-completion service is external: the selector holds \<open>Complete\<close>, what the service
  answers to a system prompt and a user prompt (an error for a failed call). Strings are byte
  lists; \<open>nl\<close> is the line feed, \<open>dq\<close> the double quote and \<open>em_dash\<close> the three bytes of the
  dash of the prompt. \<open>join_lines\<close> writes the lines of a raw string literal.
\<close>

definition nl :: string where
  "nl = [CHR 0x0A]"

definition dq :: string where
  "dq = [CHR 0x22]"

definition em_dash :: string where
  "em_dash = [CHR 0xE2, CHR 0x80, CHR 0x94]"

fun join_lines :: "string list \<Rightarrow> string" where
  "join_lines [] = []"
| "join_lines [l] = l"
| "join_lines (l # ls) = l @ nl @ join_lines ls"

fun itoa :: "nat \<Rightarrow> string" where
  "itoa n = (if n < 10 then [char_of (48 + n)] else itoa (n div 10) @ [char_of (48 + n mod 10)])"

definition SelectionSystemPrompt :: string where
  "SelectionSystemPrompt = join_lines
    [''You are an expert at connecting Dostoyevsky'' @ [CHR 0x27] @ ''s literary wisdom to contemporary topics. Your task is to evaluate whether a quote would make a thoughtful, relevant social media post in response to a current trending topic.'',
     '''',
     ''Guidelines for evaluation:'',
     ''1. RELEVANCE: The quote should genuinely connect to the topic'' @ [CHR 0x27] @ ''s themes, not just share keywords'',
     ''2. TONE: The quote should add thoughtful commentary, not seem opportunistic or inappropriate'',
     ''3. DEPTH: Prefer quotes that offer insight rather than surface-level connections'',
     ''4. APPROPRIATENESS: The pairing should not trivialize serious topics or seem insensitive'',
     '''',
     ''Rate the match on a scale of 0.0 to 1.0:'',
     ''- 0.0-0.3: Poor match, irrelevant or inappropriate'',
     ''- 0.4-0.5: Weak connection, forced or superficial'',
     ''- 0.6-0.7: Decent match, reasonable thematic connection'',
     ''- 0.8-0.9: Strong match, insightful and appropriate'',
     ''- 1.0: Perfect match, profound connection'']"

text \<open>\<open>fmt.Sprintf(BatchSelectionPrompt, title, description, quotesList)\<close>.\<close>

definition BatchSelectionPrompt :: "string \<Rightarrow> string \<Rightarrow> string \<Rightarrow> string" where
  "BatchSelectionPrompt title description quotesList = join_lines
    [''Evaluate these candidate quotes for responding to the following trending topic.'',
     '''',
     ''TRENDING TOPIC:'',
     ''Title: '' @ title,
     ''Description: '' @ description,
     '''',
     ''CANDIDATE QUOTES:'',
     quotesList,
     '''',
     ''For each quote, provide a relevance score (0.0-1.0) and brief reasoning.'',
     ''Return the single best match, or indicate if none are suitable.'',
     '''',
     ''Respond with JSON:'',
     ''{'',
     ''  '' @ dq @ ''best_match_index'' @ dq @ '': 0-based index or -1 if none suitable,'',
     ''  '' @ dq @ ''evaluations'' @ dq @ '': ['',
     ''    {'',
     ''      '' @ dq @ ''index'' @ dq @ '': 0,'',
     ''      '' @ dq @ ''score'' @ dq @ '': 0.0-1.0,'',
     ''      '' @ dq @ ''reasoning'' @ dq @ '': '' @ dq @ ''brief explanation'' @ dq,
     ''    }'',
     ''  ],'',
     ''  '' @ dq @ ''recommendation'' @ dq @ '': '' @ dq @ ''The best quote is #X because...'' @ dq
        @ '' or '' @ dq @ ''None are suitable because...'' @ dq,
     ''}'']"

record Selector =
  Complete :: "string \<Rightarrow> string \<Rightarrow> error + string"

record QuoteEvaluation =
  Index :: int
  EvalScore :: real
  EvalReasoning :: string

record BatchEvaluationResult =
  BestMatchIndex :: int
  Evaluations :: "QuoteEvaluation list"
  Recommendation :: string

text \<open>
  \<open>extractJSON\<close>: from the first opening brace, the loop counts the depth of braces and returns
  the text up to the brace that closes the first one; the empty string when there is no opening
  brace or the first one is never closed.
\<close>

fun extract_loop :: "string \<Rightarrow> int \<Rightarrow> string \<Rightarrow> string" where
  "extract_loop [] depth seen = []"
| "extract_loop (c # rest) depth seen =
     (if c = CHR ''{'' then extract_loop rest (depth + 1) (seen @ [c])
      else if c = CHR ''}'' then
        (if depth - 1 = 0 then seen @ [c] else extract_loop rest (depth - 1) (seen @ [c]))
      else extract_loop rest depth (seen @ [c]))"

definition extractJSON :: "string \<Rightarrow> string" where
  "extractJSON text = extract_loop (dropWhile (\<lambda>c. c \<noteq> CHR ''{'') text) 0 []"

text \<open>
  \<open>json.Unmarshal\<close> belongs to the Go standard library. What is modelled of it is its first
  step: the scanner skips white space and fails when the input ends there or when the next byte
  cannot begin a JSON value. The rest of the decoder, which fills the result structure, is the
  parameter \<open>decode\<close>.
\<close>

definition is_json_space :: "char \<Rightarrow> bool" where
  "is_json_space c \<longleftrightarrow> c \<in> set [CHR '' '', CHR 0x09, CHR 0x0D, CHR 0x0A]"

definition begins_json_value :: "char \<Rightarrow> bool" where
  "begins_json_value c \<longleftrightarrow> c \<in> set (''{[-0123456789tfn'' @ dq)"

definition Unmarshal ::
  "(string \<Rightarrow> error + BatchEvaluationResult) \<Rightarrow> string \<Rightarrow> error + BatchEvaluationResult" where
  "Unmarshal decode data =
     (case dropWhile is_json_space data of
        [] \<Rightarrow> Inl (Error ''unexpected end of JSON input'')
      | c # rest \<Rightarrow>
          if begins_json_value c then decode data
          else Inl (Error ''invalid character looking for beginning of value''))"

text \<open>The list of quotes of the prompt, numbered from 1.\<close>

fun quotes_list_loop :: "nat \<Rightarrow> Quote list \<Rightarrow> string \<Rightarrow> string" where
  "quotes_list_loop i [] quotesList = quotesList"
| "quotes_list_loop i (q # rest) quotesList =
     quotes_list_loop (i + 1) rest
       (quotesList @ nl @ itoa (i + 1) @ ''. '' @ dq @ Text q @ dq @ nl
          @ ''   '' @ em_dash @ '' From '' @ SourceBook q @ nl
          @ ''   Themes: '' @ Themes q @ nl)"

definition batch_prompt :: "DbTrend \<Rightarrow> Quote list \<Rightarrow> string" where
  "batch_prompt trend qs =
     (let description = (case TrendDescription trend of Some d \<Rightarrow> d | None \<Rightarrow> '''');
          quotesList = quotes_list_loop 0 qs []
      in BatchSelectionPrompt (TrendTitle trend) description quotesList)"

definition EvaluateBatch ::
  "(string \<Rightarrow> error + BatchEvaluationResult) \<Rightarrow> Selector \<Rightarrow> DbTrend \<Rightarrow> Quote list
   \<Rightarrow> error + BatchEvaluationResult" where
  "EvaluateBatch decode s trend qs =
     (if length qs = 0 then Inr \<lparr>BestMatchIndex = - 1, Evaluations = [], Recommendation = ''''\<rparr>
      else
        (let prompt = batch_prompt trend qs
         in case Complete s SelectionSystemPrompt prompt of
              Inl err \<Rightarrow> Inl (wrap ''claude complete'' err)
            | Inr response \<Rightarrow>
                (let jsonStr = extractJSON response;
                     jsonStr = (if jsonStr = [] then response else jsonStr)
                 in case Unmarshal decode jsonStr of
                      Inl err \<Rightarrow> Inl (wrap ''parse response'' err)
                    | Inr result \<Rightarrow>
                        Inr \<lparr>BestMatchIndex = BestMatchIndex result,
                             Evaluations = Evaluations result,
                             Recommendation = Recommendation result\<rparr>)))"

text \<open>
  Example inputs: a stored trend, a service that answers in prose, one that answers with a JSON
  object inside prose, and two stand-ins for the rest of the decoder: one that knows that
  object, and one that accepts every input as "none suitable".
\<close>

definition db_trend_example :: DbTrend where
  "db_trend_example =
     \<lparr>TrendID = 7, TrendSource = ''hackernews'', TrendExternalID = Some ''42'',
      TrendTitle = ''On suffering in software'', TrendUrl = None, TrendDescription = None,
      TrendScore = Some 120, Matched = False, Skipped = False, SkipReason = None,
      DetectedAt = 1700000000\<rparr>"

definition selector_prose :: Selector where
  "selector_prose = \<lparr>Complete = (\<lambda>system prompt. Inr ''None of these quotes fit the topic.'')\<rparr>"

definition response_json :: string where
  "response_json = ''{'' @ dq @ ''best_match_index'' @ dq @ '': 0, '' @ dq @ ''evaluations'' @ dq
     @ '': [{'' @ dq @ ''index'' @ dq @ '': 0, '' @ dq @ ''score'' @ dq @ '': 0.75, '' @ dq
     @ ''reasoning'' @ dq @ '': '' @ dq @ ''apt'' @ dq @ ''}], '' @ dq @ ''recommendation'' @ dq
     @ '': '' @ dq @ ''ok'' @ dq @ ''}''"

definition response_in_prose :: string where
  "response_in_prose = ''Here is the result: '' @ response_json"

definition selector_json :: Selector where
  "selector_json = \<lparr>Complete = (\<lambda>system prompt. Inr response_in_prose)\<rparr>"

definition decode_example :: "string \<Rightarrow> error + BatchEvaluationResult" where
  "decode_example data =
     (if data = response_json
      then Inr \<lparr>BestMatchIndex = 0,
                Evaluations = [\<lparr>Index = 0, EvalScore = 3 / 4, EvalReasoning = ''apt''\<rparr>],
                Recommendation = ''ok''\<rparr>
      else Inl (Error ''cannot unmarshal''))"

definition decode_none_suitable :: "string \<Rightarrow> error + BatchEvaluationResult" where
  "decode_none_suitable data =
     Inr \<lparr>BestMatchIndex = - 1, Evaluations = [], Recommendation = ''None are suitable''\<rparr>"

section \<open>Vector store adapter (package vectorstore)\<close>

text \<open>
  The VecLite collection and its embedder are external. A \<open>QuoteStore\<close> is modelled by the
  number of its records and by what the two answer; of a result, the score and the
  \<open>sqlite_id\<close> of its payload (absent, or not an integer: \<open>None\<close>) are modelled, the fields the
  matcher reads.
\<close>

record VecResult =
  RecordID :: nat
  PayloadSqliteID :: "int option"
  ResultScore :: real

record SearchResult =
  VecLiteID :: nat
  SQLiteID :: int
  ResultSimilarity :: real

record QuoteStore =
  Count :: int
  EmbedQuery :: "string \<Rightarrow> error + real list"
  CollHybridSearch :: "real list \<Rightarrow> string \<Rightarrow> int \<Rightarrow> real \<Rightarrow> real \<Rightarrow> error + VecResult list"

definition convertResults :: "VecResult list \<Rightarrow> SearchResult list" where
  "convertResults results =
     map (\<lambda>r. \<lparr>VecLiteID = RecordID r,
                SQLiteID = (case PayloadSqliteID r of Some i \<Rightarrow> i | None \<Rightarrow> 0),
                ResultSimilarity = ResultScore r\<rparr>) results"

definition HybridSearch ::
  "QuoteStore \<Rightarrow> string \<Rightarrow> int \<Rightarrow> real \<Rightarrow> real \<Rightarrow> error + SearchResult list" where
  "HybridSearch s query k vectorWeight textWeight =
     (case EmbedQuery s query of
        Inl err \<Rightarrow> Inl (wrap ''embed query'' err)
      | Inr queryVec \<Rightarrow>
          (case CollHybridSearch s queryVec query k vectorWeight textWeight of
             Inl err \<Rightarrow> Inl (wrap ''hybrid search'' err)
           | Inr results \<Rightarrow> Inr (convertResults results)))"

section \<open>Quotes in the store, loading of embeddings (internal/embedder/batch.go)\<close>

text \<open>\<open>SELECT * FROM quotes WHERE id = ? LIMIT 1\<close>.\<close>

definition GetQuote :: "Store \<Rightarrow> int \<Rightarrow> error + Quote" where
  "GetQuote st quote_id =
     (if ''GetQuote'' \<in> set (faults st) then Inl db_error
      else
        (case find (\<lambda>row. QuoteID (fst row) = quote_id) (quotes_tbl st) of
           None \<Rightarrow> Inl ErrNoRows
         | Some row \<Rightarrow> Inr (fst row)))"

text \<open>\<open>SELECT * FROM quotes WHERE embedding IS NOT NULL ORDER BY id\<close>.\<close>

definition ListQuotesWithEmbeddings :: "Store \<Rightarrow> error + (Quote \<times> embedding_blob) list" where
  "ListQuotesWithEmbeddings st =
     (if ''ListQuotesWithEmbeddings'' \<in> set (faults st) then Inl db_error
      else Inr (sort_key (\<lambda>row. QuoteID (fst row))
                  (filter (\<lambda>row. snd row \<noteq> NullBlob) (quotes_tbl st))))"

definition BytesToEmbedding :: "embedding_blob \<Rightarrow> error + real list" where
  "BytesToEmbedding data =
     (case data of
        Malformed \<Rightarrow> Inl (Error ''invalid embedding data length'')
      | Floats e \<Rightarrow> Inr e
      | NullBlob \<Rightarrow> Inr [])"

fun load_loop ::
  "(Quote \<times> embedding_blob) list \<Rightarrow> (Quote \<times> real list) list \<Rightarrow> (Quote \<times> real list) list" where
  "load_loop [] result = result"
| "load_loop (row # rest) result =
     (case BytesToEmbedding (snd row) of
        Inl err \<Rightarrow> load_loop rest result
      | Inr embedding \<Rightarrow>
          if length embedding = 0 then load_loop rest result
          else load_loop rest (result @ [(fst row, embedding)]))"

definition LoadAllEmbeddings :: "Store \<Rightarrow> error + (Quote \<times> real list) list" where
  "LoadAllEmbeddings st =
     (case ListQuotesWithEmbeddings st of
        Inl err \<Rightarrow> Inl (wrap ''list quotes'' err)
      | Inr rows \<Rightarrow> Inr (load_loop rows []))"

section \<open>Matching engine (package matcher)\<close>

text \<open>
  The embedding service is external: \<open>Embed\<close> is what it answers for a text. The matcher points
  to the store, which is passed as state; \<open>Match\<close> returns the matcher as well, since loading
  the index changes it.
\<close>

record Embedder =
  Embed :: "string \<Rightarrow> error + real list"

record MatchResult =
  MatchQuote :: Quote
  MatchTrend :: DbTrend
  VectorSimilarity :: real
  RelevanceScore :: real
  Reasoning :: string

record Matcher =
  embedder :: Embedder
  selector :: Selector
  vectorIndex :: "VectorIndex option"
  quoteStore :: "QuoteStore option"
  minSimilarity :: real
  minRelevance :: real
  candidateCount :: int



definition LoadIndex :: "Matcher \<Rightarrow> Store \<Rightarrow> error + Matcher" where
  "LoadIndex m st =
     (if quoteStore m \<noteq> None then Inr m
      else
        (case LoadAllEmbeddings st of
           Inl err \<Rightarrow> Inl (wrap ''load embeddings'' err)
         | Inr quotesWithEmbed \<Rightarrow> Inr (m\<lparr>vectorIndex := Some (NewVectorIndex quotesWithEmbed)\<rparr>)))"

definition IndexSize :: "Matcher \<Rightarrow> int" where
  "IndexSize m =
     (case quoteStore m of
        Some qs \<Rightarrow> Count qs
      | None \<Rightarrow> (case vectorIndex m of Some v \<Rightarrow> int (Size v) | None \<Rightarrow> 0))"

text \<open>The first step of \<open>Match\<close>: the index is loaded when there is neither store nor index.\<close>

definition ensure_index :: "Matcher \<Rightarrow> Store \<Rightarrow> error + Matcher" where
  "ensure_index m st =
     (if quoteStore m = None \<and> vectorIndex m = None then LoadIndex m st else Inr m)"

definition trend_text :: "DbTrend \<Rightarrow> string" where
  "trend_text trend =
     (case TrendDescription trend of
        Some d \<Rightarrow> (if d \<noteq> [] then TrendTitle trend @ nl @ nl @ d else TrendTitle trend)
      | None \<Rightarrow> TrendTitle trend)"

fun hybrid_loop :: "Matcher \<Rightarrow> Store \<Rightarrow> SearchResult list \<Rightarrow> VectorMatch list \<Rightarrow> VectorMatch list" where
  "hybrid_loop m st [] candidates = candidates"
| "hybrid_loop m st (r # rest) candidates =
     (if ResultSimilarity r < minSimilarity m then hybrid_loop m st rest candidates
      else
        (case GetQuote st (SQLiteID r) of
           Inl err \<Rightarrow> hybrid_loop m st rest candidates
         | Inr quote \<Rightarrow>
             hybrid_loop m st rest
               (candidates @ [\<lparr>Quote = quote, Similarity = ResultSimilarity r\<rparr>])))"

text \<open>
  The retrieval step of \<open>Match\<close>: hybrid search when a \<open>QuoteStore\<close> is configured, the
  in-memory index otherwise.
\<close>

definition find_candidates ::
  "((VectorMatch \<Rightarrow> VectorMatch \<Rightarrow> bool) \<Rightarrow> VectorMatch list \<Rightarrow> VectorMatch list)
   \<Rightarrow> Matcher \<Rightarrow> Store \<Rightarrow> string \<Rightarrow> error + VectorMatch list" where
  "find_candidates srt m st trendText =
     (case quoteStore m of
        Some qs \<Rightarrow>
          (case HybridSearch qs trendText (candidateCount m) 1 (3 / 10) of
             Inl err \<Rightarrow> Inl (wrap ''veclite search'' err)
           | Inr results \<Rightarrow> Inr (hybrid_loop m st results []))
      | None \<Rightarrow>
          (case Embed (embedder m) trendText of
             Inl err \<Rightarrow> Inl (wrap ''embed trend'' err)
           | Inr trendEmbed \<Rightarrow>
               (case vectorIndex m of
                  None \<Rightarrow> Inl (Panic ''nil pointer dereference'')
                | Some v \<Rightarrow>
                    SearchWithThreshold srt v trendEmbed (minSimilarity m) (candidateCount m))))"

text \<open>The evaluation the selector gave for its best match, its score and its reasoning.\<close>

definition best_eval :: "BatchEvaluationResult \<Rightarrow> QuoteEvaluation option" where
  "best_eval batchResult =
     find (\<lambda>eval. Index eval = BestMatchIndex batchResult) (Evaluations batchResult)"

definition best_relevance :: "BatchEvaluationResult \<Rightarrow> real" where
  "best_relevance batchResult =
     (case best_eval batchResult of None \<Rightarrow> 0 | Some bestEval \<Rightarrow> EvalScore bestEval)"

definition best_reasoning :: "BatchEvaluationResult \<Rightarrow> string" where
  "best_reasoning batchResult =
     (case best_eval batchResult of
        None \<Rightarrow> Recommendation batchResult
      | Some bestEval \<Rightarrow>
          if EvalReasoning bestEval \<noteq> [] then EvalReasoning bestEval
          else Recommendation batchResult)"

definition Match ::
  "((VectorMatch \<Rightarrow> VectorMatch \<Rightarrow> bool) \<Rightarrow> VectorMatch list \<Rightarrow> VectorMatch list)
   \<Rightarrow> (string \<Rightarrow> error + BatchEvaluationResult)
   \<Rightarrow> Matcher \<Rightarrow> Store \<Rightarrow> DbTrend \<Rightarrow> (error + MatchResult option) \<times> Matcher" where
  "Match srt decode m st trend =
     (case ensure_index m st of
        Inl err \<Rightarrow> (Inl err, m)
      | Inr m \<Rightarrow>
          if IndexSize m = 0 then (Inl (Error ''no quotes in index''), m)
          else
            (case find_candidates srt m st (trend_text trend) of
               Inl err \<Rightarrow> (Inl err, m)
             | Inr candidates \<Rightarrow>
                 if length candidates = 0 then (Inr None, m)
                 else
                   (case EvaluateBatch decode (selector m) trend (map Quote candidates) of
                      Inl err \<Rightarrow> (Inl (wrap ''evaluate batch'' err), m)
                    | Inr batchResult \<Rightarrow>
                        if BestMatchIndex batchResult < 0
                           \<or> BestMatchIndex batchResult \<ge> int (length candidates)
                        then (Inr None, m)
                        else
                          (let bestCandidate = candidates ! nat (BestMatchIndex batchResult);
                               relevance = best_relevance batchResult;
                               reasoning = best_reasoning batchResult
                           in if relevance < minRelevance m then (Inr None, m)
                              else (Inr (Some \<lparr>MatchQuote = Quote bestCandidate,
                                               MatchTrend = trend,
                                               VectorSimilarity = Similarity bestCandidate,
                                               RelevanceScore = relevance,
                                               Reasoning = reasoning\<rparr>), m)))))"

text \<open>
  Example inputs: embedding and completion services that answer or are down, a matcher over the
  in-memory index of three quotes, and a matcher over a vector store with three results.
\<close>

definition embedder_ok :: Embedder where
  "embedder_ok = \<lparr>Embed = (\<lambda>text. Inr [1, 0, 0])\<rparr>"



definition matcher_example :: Matcher where
  "matcher_example =
     \<lparr>embedder = embedder_ok, selector = selector_json, vectorIndex = Some index_example,
      quoteStore = None, minSimilarity = 1 / 2, minRelevance = 6 / 10, candidateCount = 10\<rparr>"

definition quote_store_example :: QuoteStore where
  "quote_store_example =
     \<lparr>Count = 3,
      EmbedQuery = (\<lambda>query. Inr [1, 0, 0]),
      CollHybridSearch = (\<lambda>queryVec query k vectorWeight textWeight.
         Inr [\<lparr>RecordID = 11, PayloadSqliteID = Some 1, ResultScore = 9 / 10\<rparr>,
              \<lparr>RecordID = 13, PayloadSqliteID = Some 3, ResultScore = 6 / 10\<rparr>,
              \<lparr>RecordID = 12, PayloadSqliteID = Some 2, ResultScore = 2 / 10\<rparr>])\<rparr>"


definition matcher_hybrid :: Matcher where
  "matcher_hybrid =
     \<lparr>embedder = embedder_ok, selector = selector_json, vectorIndex = None,
      quoteStore = Some quote_store_example, minSimilarity = 1 / 2, minRelevance = 6 / 10,
      candidateCount = 10\<rparr>"

definition store_with_quotes :: Store where
  "store_with_quotes =
     \<lparr>trends_tbl = [], posts_tbl = [],
      quotes_tbl = [(quote1, Floats [1, 0, 0]), (quote2, Floats [0, 1, 0]),
                    (quote3, Floats [3 / 5, 4 / 5, 0])],
      now = 1700000000, faults = []\<rparr>"





section \<open>Posts and flags in the store (queries of package db)\<close>

definition day_start :: "nat \<Rightarrow> nat" where
  "day_start t = (t div 86400) * 86400"

text \<open>
  \<open>SELECT COUNT(*) FROM posts WHERE platform = ? AND posted_at >= date('now')\<close>;
  \<open>posts_today\<close> are the rows it counts.
\<close>

definition posts_today :: "Store \<Rightarrow> string \<Rightarrow> DbPost list" where
  "posts_today st platform =
     filter (\<lambda>p. Platform p = platform \<and> PostedAt p \<ge> day_start (now st)) (posts_tbl st)"

definition CountPostsToday :: "Store \<Rightarrow> string \<Rightarrow> error + int" where
  "CountPostsToday st platform =
     (if ''CountPostsToday'' \<in> set (faults st) then Inl db_error
      else Inr (int (length (posts_today st platform))))"

text \<open>
  \<open>SELECT * FROM trends WHERE matched = FALSE AND skipped = FALSE
  ORDER BY detected_at DESC LIMIT ?\<close>. Rows with the same time stamp come in an order the
  engine chooses; here the later row first.
\<close>

definition ListUnmatchedTrends :: "Store \<Rightarrow> int \<Rightarrow> error + DbTrend list" where
  "ListUnmatchedTrends st limit =
     (if ''ListUnmatchedTrends'' \<in> set (faults st) then Inl db_error
      else
        (let rows = rev (sort_key DetectedAt
                      (filter (\<lambda>r. \<not> Matched r \<and> \<not> Skipped r) (trends_tbl st)))
         in Inr (if limit < 0 then rows else take (nat limit) rows)))"

definition GetUnmatchedTrends :: "Store \<Rightarrow> int \<Rightarrow> error + DbTrend list" where
  "GetUnmatchedTrends st limit = ListUnmatchedTrends st limit"

text \<open>\<open>UPDATE trends SET skipped = TRUE, skip_reason = ? WHERE id = ?\<close>.\<close>

definition UpdateTrendSkipped :: "Store \<Rightarrow> int \<Rightarrow> string option \<Rightarrow> (error + unit) \<times> Store" where
  "UpdateTrendSkipped st trend_id reason =
     (if ''UpdateTrendSkipped'' \<in> set (faults st) then (Inl db_error, st)
      else (Inr (), st\<lparr>trends_tbl :=
              map (\<lambda>r. if TrendID r = trend_id then r\<lparr>Skipped := True, SkipReason := reason\<rparr> else r)
                (trends_tbl st)\<rparr>))"

text \<open>\<open>UPDATE trends SET matched = TRUE WHERE id = ?\<close>.\<close>

definition UpdateTrendMatched :: "Store \<Rightarrow> int \<Rightarrow> (error + unit) \<times> Store" where
  "UpdateTrendMatched st trend_id =
     (if ''UpdateTrendMatched'' \<in> set (faults st) then (Inl db_error, st)
      else (Inr (), st\<lparr>trends_tbl :=
              map (\<lambda>r. if TrendID r = trend_id then r\<lparr>Matched := True\<rparr> else r) (trends_tbl st)\<rparr>))"

text \<open>\<open>UPDATE quotes SET times_posted = times_posted + 1, last_posted_at = CURRENT_TIMESTAMP
  WHERE id = ?\<close>.\<close>

definition UpdateQuotePosted :: "Store \<Rightarrow> int \<Rightarrow> (error + unit) \<times> Store" where
  "UpdateQuotePosted st quote_id =
     (if ''UpdateQuotePosted'' \<in> set (faults st) then (Inl db_error, st)
      else (Inr (), st\<lparr>quotes_tbl :=
              map (\<lambda>row. if QuoteID (fst row) = quote_id
                          then ((fst row)\<lparr>TimesPosted := TimesPosted (fst row) + 1,
                                            LastPostedAt := Some (now st)\<rparr>, snd row)
                          else row) (quotes_tbl st)\<rparr>))"

text \<open>\<open>INSERT INTO posts (...)\<close>, under the unique index on \<open>(trend_hash, platform)\<close>.\<close>

definition CreatePost :: "Store \<Rightarrow> DbPost \<Rightarrow> (error + DbPost) \<times> Store" where
  "CreatePost st p =
     (if ''CreatePost'' \<in> set (faults st) then (Inl db_error, st)
      else if \<exists>r\<in>set (posts_tbl st). TrendHash r = TrendHash p \<and> Platform r = Platform p
      then (Inl (Error ''UNIQUE constraint failed: posts.trend_hash, posts.platform''), st)
      else
        (let row = p\<lparr>PostRowID := next_id (map PostRowID (posts_tbl st)), PostedAt := now st\<rparr>
         in (Inr row, st\<lparr>posts_tbl := posts_tbl st @ [row]\<rparr>)))"

section \<open>Formatting and hashing (internal/poster/formatter.go, internal/monitor/aggregator.go)\<close>

definition FormatQuote :: "string \<Rightarrow> string \<Rightarrow> string \<Rightarrow> string" where
  "FormatQuote quoteText sourceBook author =
     (let attribution =
            (if author \<noteq> [] \<and> author \<noteq> ''Narrator''
             then em_dash @ '' '' @ author @ '', '' @ sourceBook
             else em_dash @ '' '' @ sourceBook)
      in dq @ quoteText @ dq @ nl @ nl @ attribution)"

text \<open>
  \<open>HashTrend\<close>: the hexadecimal form of the first 16 bytes of the SHA-256 of
  \<open>source:externalId:title\<close>. The hash function belongs to the standard library and is the
  parameter \<open>sha256_hex16\<close>.
\<close>

definition HashTrend :: "(string \<Rightarrow> string) \<Rightarrow> Trend \<Rightarrow> string" where
  "HashTrend sha256_hex16 trend =
     sha256_hex16 (Source trend @ '':'' @ ExternalID trend @ '':'' @ Title trend)"

section \<open>Health tracker (internal/scheduler/health.go)\<close>

record HealthStatus =
  Healthy :: bool
  LastCheck :: nat
  LastSuccess :: nat
  LastError :: "error option"
  Message :: string

definition zero_status :: HealthStatus where
  "zero_status = \<lparr>Healthy = False, LastCheck = 0, LastSuccess = 0, LastError = None, Message = ''''\<rparr>"

fun error_message :: "error \<Rightarrow> string" where
  "error_message (Error m) = m"
| "error_message (Panic m) = m"

definition SetHealthy ::
  "(string \<rightharpoonup> HealthStatus) \<Rightarrow> nat \<Rightarrow> string \<Rightarrow> string \<Rightarrow> (string \<rightharpoonup> HealthStatus)" where
  "SetHealthy h t component message =
     h(component \<mapsto>
        (case h component of None \<Rightarrow> zero_status | Some s \<Rightarrow> s)
          \<lparr>Healthy := True, LastCheck := t, LastSuccess := t, LastError := None,
           Message := message\<rparr>)"

definition SetUnhealthy ::
  "(string \<rightharpoonup> HealthStatus) \<Rightarrow> nat \<Rightarrow> string \<Rightarrow> error \<Rightarrow> (string \<rightharpoonup> HealthStatus)" where
  "SetUnhealthy h t component err =
     h(component \<mapsto>
        (case h component of None \<Rightarrow> zero_status | Some s \<Rightarrow> s)
          \<lparr>Healthy := False, LastCheck := t, LastError := Some err,
           Message := error_message err\<rparr>)"

section \<open>Scheduler (internal/scheduler/scheduler.go)\<close>

text \<open>
  The publishing service is external: \<open>Post\<close> is what it answers for a content. The scheduler
  is modelled with the objects it points to (store, matcher, poster, health tracker), the
  process clock, and \<open>published\<close>, the contents handed to \<open>Post\<close> so far: each call of the
  publishing capability adds one entry.
\<close>

record PostContent =
  ContentText :: string
  ContentQuoteText :: string
  ContentSourceBook :: string
  ContentTrendTitle :: string

record PostResult =
  PostID :: string
  PostURL :: string

record Poster =
  Post :: "PostContent \<Rightarrow> error + PostResult"

record Scheduler =
  MaxPostsPerDay :: int
  store :: Store
  matcher :: Matcher
  poster :: Poster
  health :: "string \<rightharpoonup> HealthStatus"
  lastPost :: "nat option"
  clock :: nat
  published :: "PostContent list"

text \<open>
  The loop over the unmatched trends: a failed match is passed over, a match ends the loop,
  and a trend with no match is marked as skipped (a failure to mark it is only logged).
\<close>

fun match_loop ::
  "((VectorMatch \<Rightarrow> VectorMatch \<Rightarrow> bool) \<Rightarrow> VectorMatch list \<Rightarrow> VectorMatch list)
   \<Rightarrow> (string \<Rightarrow> error + BatchEvaluationResult)
   \<Rightarrow> DbTrend list \<Rightarrow> Matcher \<Rightarrow> Store \<Rightarrow> MatchResult option \<times> Matcher \<times> Store" where
  "match_loop srt decode [] m st = (None, m, st)"
| "match_loop srt decode (trend # rest) m st =
     (case Match srt decode m st trend of
        (Inl err, m') \<Rightarrow> match_loop srt decode rest m' st
      | (Inr (Some result), m') \<Rightarrow> (Some result, m', st)
      | (Inr None, m') \<Rightarrow>
          match_loop srt decode rest m'
            (snd (UpdateTrendSkipped st (TrendID trend) (Some ''no suitable quote match''))))"

text \<open>The part of \<open>runPostCycle\<close> after the check of the daily limit.\<close>

definition post_cycle_body ::
  "((VectorMatch \<Rightarrow> VectorMatch \<Rightarrow> bool) \<Rightarrow> VectorMatch list \<Rightarrow> VectorMatch list)
   \<Rightarrow> (string \<Rightarrow> error + BatchEvaluationResult) \<Rightarrow> (string \<Rightarrow> string)
   \<Rightarrow> Scheduler \<Rightarrow> Scheduler" where
  "post_cycle_body srt decode sha256_hex16 s =
     (case GetUnmatchedTrends (store s) 10 of
        Inl err \<Rightarrow> s\<lparr>health := SetUnhealthy (health s) (clock s) ''post'' err\<rparr>
      | Inr unmatchedTrends \<Rightarrow>
          if length unmatchedTrends = 0 then s
          else
            (case match_loop srt decode unmatchedTrends (matcher s) (store s) of
               (None, m, st) \<Rightarrow> s\<lparr>matcher := m, store := st\<rparr>
             | (Some bestMatch, m, st) \<Rightarrow>
                 (let s = s\<lparr>matcher := m, store := st\<rparr>;
                      character = (case Character (MatchQuote bestMatch) of
                                     Some c \<Rightarrow> c | None \<Rightarrow> '''');
                      formatted = FormatQuote (Text (MatchQuote bestMatch))
                                    (SourceBook (MatchQuote bestMatch)) character;
                      content = \<lparr>ContentText = formatted,
                                 ContentQuoteText = Text (MatchQuote bestMatch),
                                 ContentSourceBook = SourceBook (MatchQuote bestMatch),
                                 ContentTrendTitle = TrendTitle (MatchTrend bestMatch)\<rparr>;
                      s = s\<lparr>published := published s @ [content]\<rparr>
                  in case Post (poster s) content of
                       Inl err \<Rightarrow> s\<lparr>health := SetUnhealthy (health s) (clock s) ''post'' err\<rparr>
                     | Inr result \<Rightarrow>
                         (let s = s\<lparr>health := SetHealthy (health s) (clock s) ''post''
                                                 ''posted successfully'',
                                    lastPost := Some (clock s)\<rparr>;
                              trendHash = HashTrend sha256_hex16
                                \<lparr>Source = TrendSource (MatchTrend bestMatch),
                                 ExternalID = (case TrendExternalID (MatchTrend bestMatch) of
                                                 Some e \<Rightarrow> e | None \<Rightarrow> ''''),
                                 Title = TrendTitle (MatchTrend bestMatch),
                                 URL = '''', Description = '''', Score = 0\<rparr>;
                              st = snd (CreatePost (store s)
                                \<lparr>PostRowID = 0,
                                 PostQuoteID = QuoteID (MatchQuote bestMatch),
                                 Platform = ''bluesky'',
                                 PlatformPostID = Some (PostID result),
                                 PostUrl = Some (PostURL result),
                                 PostTrendID = Some (TrendID (MatchTrend bestMatch)),
                                 PostTrendTitle = TrendTitle (MatchTrend bestMatch),
                                 PostTrendSource = TrendSource (MatchTrend bestMatch),
                                 TrendHash = trendHash,
                                 PostRelevanceScore = RelevanceScore bestMatch,
                                 PostRelevanceReasoning = null_string (Reasoning bestMatch),
                                 PostVectorSimilarity = VectorSimilarity bestMatch,
                                 PostedAt = 0\<rparr>);
                              st = snd (UpdateTrendMatched st (TrendID (MatchTrend bestMatch)));
                              st = snd (UpdateQuotePosted st (QuoteID (MatchQuote bestMatch)))
                          in s\<lparr>store := st\<rparr>))))"

definition runPostCycle ::
  "((VectorMatch \<Rightarrow> VectorMatch \<Rightarrow> bool) \<Rightarrow> VectorMatch list \<Rightarrow> VectorMatch list)
   \<Rightarrow> (string \<Rightarrow> error + BatchEvaluationResult) \<Rightarrow> (string \<Rightarrow> string)
   \<Rightarrow> Scheduler \<Rightarrow> Scheduler" where
  "runPostCycle srt decode sha256_hex16 s =
     (case CountPostsToday (store s) ''bluesky'' of
        Inl err \<Rightarrow> post_cycle_body srt decode sha256_hex16 s
      | Inr postsToday \<Rightarrow>
          if postsToday \<ge> MaxPostsPerDay s then s
          else post_cycle_body srt decode sha256_hex16 s)"

text \<open>
  Example inputs: a store with one unmatched trend and one post of today, whose count query
  fails; a publishing service that accepts every post; a scheduler with a daily limit of 1 over
  that store, and the same scheduler over the store with no failing query.
\<close>

definition post_of_today :: DbPost where
  "post_of_today =
     \<lparr>PostRowID = 1, PostQuoteID = 2, Platform = ''bluesky'', PlatformPostID = Some ''p0'',
      PostUrl = Some ''https://bsky.app/p0'', PostTrendID = None,
      PostTrendTitle = ''An earlier trend'', PostTrendSource = ''hackernews'',
      TrendHash = ''earlier'', PostRelevanceScore = 7 / 10, PostRelevanceReasoning = None,
      PostVectorSimilarity = 1 / 2, PostedAt = 1699990000\<rparr>"

definition store_count_fails :: Store where
  "store_count_fails =
     \<lparr>trends_tbl = [db_trend_example], posts_tbl = [post_of_today],
      quotes_tbl = [(quote1, Floats [1, 0, 0]), (quote2, Floats [0, 1, 0]),
                    (quote3, Floats [3 / 5, 4 / 5, 0])],
      now = 1700000000, faults = [''CountPostsToday'']\<rparr>"

definition poster_ok :: Poster where
  "poster_ok = \<lparr>Post = (\<lambda>content. Inr \<lparr>PostID = ''p1'', PostURL = ''https://bsky.app/p1''\<rparr>)\<rparr>"

definition scheduler_count_fails :: Scheduler where
  "scheduler_count_fails =
     \<lparr>MaxPostsPerDay = 1, store = store_count_fails, matcher = matcher_example,
      poster = poster_ok, health = Map.empty, lastPost = None, clock = 1700000000,
      published = []\<rparr>"

definition scheduler_at_limit :: Scheduler where
  "scheduler_at_limit = scheduler_count_fails\<lparr>store := store_count_fails\<lparr>faults := []\<rparr>\<rparr>"

definition content_example :: PostContent where
  "content_example =
     \<lparr>ContentText = dq @ ''Quote 1'' @ dq @ nl @ nl @ em_dash @ '' The Idiot'',
      ContentQuoteText = ''Quote 1'', ContentSourceBook = ''The Idiot'',
      ContentTrendTitle = ''On suffering in software''\<rparr>"

section \<open>Facts about the string functions\<close>

lemma HasPrefix_iff: "HasPrefix s p \<longleftrightarrow> (\<exists>r. s = p @ r)"
  by (induction s p rule: HasPrefix.induct) auto

lemma Contains_iff: "Contains s sub \<longleftrightarrow> (\<exists>p q. s = p @ sub @ q)"
proof (induction s)
  case Nil
  then show ?case by auto
next
  case (Cons c s)
  show ?case
  proof
    assume "Contains (c # s) sub"
    then consider "HasPrefix (c # s) sub" | "Contains s sub" by auto
    then show "\<exists>p q. c # s = p @ sub @ q"
    proof cases
      case 1
      then obtain r where "c # s = sub @ r" by (auto simp: HasPrefix_iff)
      then have "c # s = [] @ sub @ r" by simp
      then show ?thesis by blast
    next
      case 2
      then obtain p q where "s = p @ sub @ q" using Cons.IH by blast
      then have "c # s = (c # p) @ sub @ q" by simp
      then show ?thesis by blast
    qed
  next
    assume "\<exists>p q. c # s = p @ sub @ q"
    then obtain p q where pq: "c # s = p @ sub @ q" by blast
    show "Contains (c # s) sub"
    proof (cases p)
      case Nil
      with pq have "HasPrefix (c # s) sub" by (auto simp: HasPrefix_iff)
      then show ?thesis by simp
    next
      case (Cons a p')
      with pq have "s = p' @ sub @ q" by simp
      then have "Contains s sub" using Cons.IH by blast
      then show ?thesis by simp
    qed
  qed
qed

lemma Contains_append_left: "Contains s sub \<Longrightarrow> Contains (s @ t) sub"
  by (auto simp: Contains_iff) (metis append.assoc)

lemma Contains_append_right: "Contains t sub \<Longrightarrow> Contains (s @ t) sub"
  by (auto simp: Contains_iff) (metis append.assoc)

lemma ToLower_append: "ToLower (s @ t) = ToLower s @ ToLower t"
  by (simp add: ToLower_def)

section \<open>Facts about the filter\<close>

lemma FilterTrends_loop_filter:
  "FilterTrends_loop f trends result = result @ filter (\<lambda>t. Pass (Check f t)) trends"
  by (induction trends arbitrary: result) auto

lemma FilterTrends_filter: "FilterTrends f trends = filter (\<lambda>t. Pass (Check f t)) trends"
  by (simp add: FilterTrends_def FilterTrends_loop_filter)

lemma Check_score_fails:
  "0 < minScore f \<Longrightarrow> Score t < minScore f \<Longrightarrow> \<not> Pass (Check f t)"
  by (simp add: Check_def)

lemma Check_term_fails:
  assumes "term \<in> set (sensitiveTerms f)"
    and "Contains (ToLower (Title t @ '' '' @ Description t)) term"
  shows "\<not> Pass (Check f t)"
proof -
  have "find (\<lambda>term. Contains (ToLower (Title t @ '' '' @ Description t)) term) (sensitiveTerms f)
        \<noteq> None"
    using assms by (auto simp: find_None_iff)
  then show ?thesis
    by (auto simp: Check_def Let_def split: option.splits)
qed

lemma Check_denylisted_fails:
  assumes "term \<in> set (SensitiveTopics @ AdditionalTerms cfg)"
    and "Contains (ToLower (Title t)) (ToLower term)
         \<or> Contains (ToLower (Description t)) (ToLower term)"
  shows "\<not> Pass (Check (NewFilter cfg) t)"
proof -
  have mem: "ToLower term \<in> set (sensitiveTerms (NewFilter cfg))"
    using assms(1) by (auto simp: NewFilter_def)
  have "Contains (ToLower (Title t) @ ToLower ('' '' @ Description t)) (ToLower term)"
    using assms(2)
  proof
    assume "Contains (ToLower (Title t)) (ToLower term)"
    then show ?thesis by (rule Contains_append_left)
  next
    assume "Contains (ToLower (Description t)) (ToLower term)"
    then have "Contains (ToLower '' '' @ ToLower (Description t)) (ToLower term)"
      by (rule Contains_append_right)
    then have "Contains (ToLower ('' '' @ Description t)) (ToLower term)"
      by (simp only: ToLower_append)
    then show ?thesis by (rule Contains_append_right)
  qed
  then have "Contains (ToLower (Title t @ '' '' @ Description t)) (ToLower term)"
    by (simp only: ToLower_append)
  with mem show ?thesis by (rule Check_term_fails)
qed

text \<open>
  Claim C7, as stated, fails in its last part: the score is compared with the minimum score only
  when the minimum score is positive. With a minimum score of \<open>-5\<close> a trend of score \<open>-10\<close>
  passes the filter.
\<close>

theorem FilterTrends_min_score_counterexample:
  "MinScore filter_cfg_negative = - 5 \<and> Score trend_negative_score = - 10
   \<and> FilterTrends (NewFilter filter_cfg_negative) [trend_negative_score] = [trend_negative_score]"
  by code_simp

text \<open>
  Claim C7, amended. \<open>FilterTrends\<close> is a pure, order-preserving filter: its output is exactly
  the subsequence of the input trends that pass \<open>Check\<close>. A trend whose title or description
  contains a deny-listed term, compared case-insensitively, is not in the output, and, when the
  configured minimum score is positive, a trend whose score is below it is not in the output
  whatever its content. A minimum score of 0 or less switches the score test off.
\<close>

theorem FilterTrends_safety:
  "FilterTrends f trends = filter (\<lambda>t. Pass (Check f t)) trends
   \<and> (\<forall>t \<in> set trends. \<forall>term \<in> set (SensitiveTopics @ AdditionalTerms cfg).
         Contains (ToLower (Title t)) (ToLower term)
         \<or> Contains (ToLower (Description t)) (ToLower term)
         \<longrightarrow> t \<notin> set (FilterTrends (NewFilter cfg) trends))
   \<and> (\<forall>t \<in> set trends. 0 < MinScore cfg \<and> Score t < MinScore cfg
         \<longrightarrow> t \<notin> set (FilterTrends (NewFilter cfg) trends))"
proof (intro conjI ballI impI)
  show "FilterTrends f trends = filter (\<lambda>t. Pass (Check f t)) trends"
    by (rule FilterTrends_filter)
next
  fix t :: Trend and w
  assume "w \<in> set (SensitiveTopics @ AdditionalTerms cfg)"
    and "Contains (ToLower (Title t)) (ToLower w)
         \<or> Contains (ToLower (Description t)) (ToLower w)"
  then have "\<not> Pass (Check (NewFilter cfg) t)" by (rule Check_denylisted_fails)
  then show "t \<notin> set (FilterTrends (NewFilter cfg) trends)"
    by (simp add: FilterTrends_filter)
next
  fix t :: Trend
  assume "0 < MinScore cfg \<and> Score t < MinScore cfg"
  then have "\<not> Pass (Check (NewFilter cfg) t)"
    by (intro Check_score_fails) (simp_all add: NewFilter_def)
  then show "t \<notin> set (FilterTrends (NewFilter cfg) trends)"
    by (simp add: FilterTrends_filter)
qed

theorem FilterTrends_safety_witness:
  "trend_denylisted \<in> set [trend_low_score, trend_denylisted, trend_ok]
   \<and> ''trump'' \<in> set (SensitiveTopics @ AdditionalTerms filter_cfg_example)
   \<and> Contains (ToLower (Title trend_denylisted)) (ToLower ''trump'')
   \<and> trend_denylisted \<notin> set (FilterTrends (NewFilter filter_cfg_example)
        [trend_low_score, trend_denylisted, trend_ok])
   \<and> trend_low_score \<in> set [trend_low_score, trend_denylisted, trend_ok]
   \<and> 0 < MinScore filter_cfg_example \<and> Score trend_low_score < MinScore filter_cfg_example
   \<and> trend_low_score \<notin> set (FilterTrends (NewFilter filter_cfg_example)
        [trend_low_score, trend_denylisted, trend_ok])
   \<and> FilterTrends (NewFilter filter_cfg_example) [trend_low_score, trend_denylisted, trend_ok]
       = [trend_ok]"
proof -
  let ?ts = "[trend_low_score, trend_denylisted, trend_ok]"
  have m1: "trend_denylisted \<in> set ?ts" and m2: "trend_low_score \<in> set ?ts" by simp_all
  have d1: "''trump'' \<in> set (SensitiveTopics @ AdditionalTerms filter_cfg_example)"
    by (simp add: SensitiveTopics_def)
  have d2: "Contains (ToLower (Title trend_denylisted)) (ToLower ''trump'')"
    by code_simp
  have s1: "0 < MinScore filter_cfg_example \<and> Score trend_low_score < MinScore filter_cfg_example"
    by (simp add: filter_cfg_example_def trend_low_score_def)
  have p1: "\<not> Pass (Check (NewFilter filter_cfg_example) trend_low_score)" by code_simp
  have p2: "\<not> Pass (Check (NewFilter filter_cfg_example) trend_denylisted)" by code_simp
  have p3: "Pass (Check (NewFilter filter_cfg_example) trend_ok)" by code_simp
  note inst = FilterTrends_safety [of "NewFilter filter_cfg_example" ?ts filter_cfg_example]
  from inst p1 p2 p3
  have r: "FilterTrends (NewFilter filter_cfg_example) ?ts = [trend_ok]" by simp
  from inst m1 d1 d2
  have r1: "trend_denylisted \<notin> set (FilterTrends (NewFilter filter_cfg_example) ?ts)" by blast
  from inst m2 s1
  have r2: "trend_low_score \<notin> set (FilterTrends (NewFilter filter_cfg_example) ?ts)" by blast
  from m1 m2 d1 d2 s1 r r1 r2 show ?thesis by blast
qed

section \<open>Facts about cosine similarity\<close>

lemma cosine_loop_sums:
  "length a = length b \<Longrightarrow>
   cosine_loop a b (d, na, nb) =
     (d + (\<Sum>(x, y)\<leftarrow>zip a b. x * y), na + (\<Sum>x\<leftarrow>a. x * x), nb + (\<Sum>y\<leftarrow>b. y * y))"
  by (induction a b arbitrary: d na nb rule: list_induct2) (simp_all add: algebra_simps)

lemma sum_squares_nonneg: "0 \<le> (\<Sum>x\<leftarrow>a. x * x)" for a :: "real list"
  by (induction a) simp_all

lemma sum_squares_pos: "\<exists>x\<in>set a. x \<noteq> 0 \<Longrightarrow> 0 < (\<Sum>x\<leftarrow>a. x * x)" for a :: "real list"
proof (induction a)
  case Nil
  then show ?case by simp
next
  case (Cons x a)
  have "0 \<le> (\<Sum>x\<leftarrow>a. x * x)" by (rule sum_squares_nonneg)
  show ?case
  proof (cases "x = 0")
    case True
    with Cons show ?thesis by simp
  next
    case False
    then have "0 < x * x" by (metis not_real_square_gt_zero)
    with \<open>0 \<le> (\<Sum>x\<leftarrow>a. x * x)\<close> show ?thesis by simp
  qed
qed

lemma sum_squares_zero: "\<forall>x\<in>set a. x = 0 \<Longrightarrow> (\<Sum>x\<leftarrow>a. x * x) = 0" for a :: "real list"
  by (induction a) simp_all

lemma zip_self_products: "(\<Sum>(x, y)\<leftarrow>zip a a. x * y) = (\<Sum>x\<leftarrow>a. x * x)" for a :: "real list"
  by (induction a) simp_all

lemma zip_neg_products:
  "(\<Sum>(x, y)\<leftarrow>zip a (map uminus a). x * y) = - (\<Sum>x\<leftarrow>a. x * x)" for a :: "real list"
  by (induction a) simp_all

lemma neg_squares: "(\<Sum>y\<leftarrow>map uminus a. y * y) = (\<Sum>x\<leftarrow>a. x * x)" for a :: "real list"
  by (induction a) simp_all

lemma CosineSimilarity_self:
  assumes "\<exists>x\<in>set a. x \<noteq> 0"
  shows "CosineSimilarity a a = 1"
proof -
  have pos: "0 < (\<Sum>x\<leftarrow>a. x * x)" using assms by (rule sum_squares_pos)
  then show ?thesis
    by (simp add: CosineSimilarity_def cosine_loop_sums zip_self_products)
qed

lemma CosineSimilarity_opposite:
  assumes "\<exists>x\<in>set a. x \<noteq> 0"
  shows "CosineSimilarity a (map uminus a) = - 1"
proof -
  have pos: "0 < (\<Sum>x\<leftarrow>a. x * x)" using assms by (rule sum_squares_pos)
  then show ?thesis
    by (simp add: CosineSimilarity_def cosine_loop_sums zip_neg_products neg_squares del: map_map)
qed

lemma CosineSimilarity_orthogonal:
  "length a = length b \<Longrightarrow> (\<Sum>(x, y)\<leftarrow>zip a b. x * y) = 0 \<Longrightarrow> CosineSimilarity a b = 0"
  by (simp add: CosineSimilarity_def cosine_loop_sums)

lemma CosineSimilarity_mismatch: "length a \<noteq> length b \<Longrightarrow> CosineSimilarity a b = 0"
  by (simp add: CosineSimilarity_def)

lemma CosineSimilarity_zero_vector: "\<forall>x\<in>set a. x = 0 \<Longrightarrow> CosineSimilarity a b = 0"
  by (cases "length a = length b")
     (simp_all add: CosineSimilarity_def cosine_loop_sums sum_squares_zero)

text \<open>
  Claim C9, as stated, fails: the similarity of the zero vector with itself is 0, by the guard
  for a zero norm, and not 1 within any tolerance below 1.
\<close>

theorem CosineSimilarity_zero_self_counterexample:
  "CosineSimilarity [0, 0, 0] [0, 0, 0] = 0
   \<and> \<not> \<bar>CosineSimilarity [0, 0, 0] [0, 0, 0] - 1\<bar> \<le> 1 / 10000"
  by (simp add: CosineSimilarity_def)

text \<open>
  Claim C9, amended. \<open>CosineSimilarity\<close> is a total function of its two arguments. Over exact
  arithmetic: a vector with a non-zero component has similarity 1 with itself and \<open>-1\<close> with its
  opposite; two vectors of equal length whose dot product is 0 have similarity 0; two vectors of
  different lengths have similarity 0; and a vector whose components are all 0 has similarity 0
  with every vector, itself included.
\<close>

theorem CosineSimilarity_cases:
  "((\<exists>x\<in>set a. x \<noteq> 0) \<longrightarrow> CosineSimilarity a a = 1)
   \<and> ((\<exists>x\<in>set a. x \<noteq> 0) \<longrightarrow> CosineSimilarity a (map uminus a) = - 1)
   \<and> (length a = length b \<and> (\<Sum>(x, y)\<leftarrow>zip a b. x * y) = 0 \<longrightarrow> CosineSimilarity a b = 0)
   \<and> (length a \<noteq> length b \<longrightarrow> CosineSimilarity a b = 0)
   \<and> ((\<forall>x\<in>set a. x = 0) \<longrightarrow> CosineSimilarity a b = 0)"
  using CosineSimilarity_self [of a] CosineSimilarity_opposite [of a]
    CosineSimilarity_orthogonal [of a b] CosineSimilarity_mismatch [of a b]
    CosineSimilarity_zero_vector [of a b]
  by blast

theorem CosineSimilarity_cases_witness:
  "(\<exists>x\<in>set [1, 2, 3 :: real]. x \<noteq> 0)
   \<and> CosineSimilarity [1, 2, 3] [1, 2, 3] = 1
   \<and> CosineSimilarity [1, 2, 3] [- 1, - 2, - 3] = - 1
   \<and> length [1, 0, 0 :: real] = length [0, 1, 0 :: real]
   \<and> (\<Sum>(x, y)\<leftarrow>zip [1, 0, 0 :: real] [0, 1, 0]. x * y) = 0
   \<and> CosineSimilarity [1, 0, 0] [0, 1, 0] = 0
   \<and> length [1, 2 :: real] \<noteq> length [1, 2, 3 :: real]
   \<and> CosineSimilarity [1, 2] [1, 2, 3] = 0
   \<and> set [0, 0, 0 :: real] \<subseteq> {0}
   \<and> CosineSimilarity [0, 0, 0] [1, 2, 3] = 0"
proof -
  have h1: "\<exists>x\<in>set [1, 2, 3 :: real]. x \<noteq> 0" by simp
  have h2: "length [1, 0, 0 :: real] = length [0, 1, 0 :: real]
            \<and> (\<Sum>(x, y)\<leftarrow>zip [1, 0, 0 :: real] [0, 1, 0]. x * y) = 0" by simp
  have h3: "length [1, 2 :: real] \<noteq> length [1, 2, 3 :: real]" by simp
  have h4: "\<forall>x\<in>set [0, 0, 0 :: real]. x = 0" by simp
  have r1: "CosineSimilarity [1, 2, 3] [1, 2, 3] = 1"
    using CosineSimilarity_cases [of "[1, 2, 3]" "[]"] h1 by blast
  have "CosineSimilarity [1, 2, 3] (map uminus [1, 2, 3]) = - 1"
    using CosineSimilarity_cases [of "[1, 2, 3]" "[]"] h1 by blast
  then have r2: "CosineSimilarity [1, 2, 3] [- 1, - 2, - 3] = - 1" by simp
  have r3: "CosineSimilarity [1, 0, 0] [0, 1, 0] = 0"
    using CosineSimilarity_cases [of "[1, 0, 0]" "[0, 1, 0]"] h2 by blast
  have r4: "CosineSimilarity [1, 2] [1, 2, 3] = 0"
    using CosineSimilarity_cases [of "[1, 2]" "[1, 2, 3]"] h3 by blast
  have r5: "CosineSimilarity [0, 0, 0] [1, 2, 3] = 0"
    using CosineSimilarity_cases [of "[0, 0, 0]" "[1, 2, 3]"] h4 by blast
  have h4': "set [0, 0, 0 :: real] \<subseteq> {0}" by simp
  from h1 h2 h3 h4' r1 r2 r3 r4 r5 show ?thesis by blast
qed

section \<open>Facts about the sorting functions\<close>

lemma transitive_ordering_search_less: "transitive_ordering search_less"
  by (auto simp: transitive_ordering_def search_less_def)

lemma transitive_ordering_match_less: "transitive_ordering match_less"
  by (auto simp: transitive_ordering_def match_less_def)

lemma mset_insort_by: "mset (insort_by lt x ys) = add_mset x (mset ys)"
  by (induction ys) simp_all

lemma set_insort_by: "set (insort_by lt x ys) = insert x (set ys)"
  by (induction ys) auto

lemma sorted_insort_by:
  assumes "transitive_ordering lt"
  shows "sorted_wrt (\<lambda>a b. \<not> lt b a) ys \<Longrightarrow> sorted_wrt (\<lambda>a b. \<not> lt b a) (insort_by lt x ys)"
proof (induction ys)
  case Nil
  then show ?case by simp
next
  case (Cons y ys)
  have irr: "\<And>a. \<not> lt a a" and tr: "\<And>a b c. lt a b \<Longrightarrow> lt b c \<Longrightarrow> lt a c"
    using assms unfolding transitive_ordering_def by blast+
  show ?case
  proof (cases "lt x y")
    case True
    have "\<not> lt y x" using True irr tr by blast
    moreover have "\<forall>z\<in>set ys. \<not> lt z x" using True Cons.prems tr by auto
    ultimately show ?thesis using True Cons.prems by simp
  next
    case False
    then show ?thesis using Cons by (auto simp: set_insort_by)
  qed
qed

lemma mset_foldl_insort:
  "mset (foldl (\<lambda>acc x. insort_by lt x acc) acc xs) = mset acc + mset xs"
  by (induction xs arbitrary: acc) (simp_all add: mset_insort_by)

lemma sorted_foldl_insort:
  "transitive_ordering lt \<Longrightarrow> sorted_wrt (\<lambda>a b. \<not> lt b a) acc \<Longrightarrow>
   sorted_wrt (\<lambda>a b. \<not> lt b a) (foldl (\<lambda>acc x. insort_by lt x acc) acc xs)"
  by (induction xs arbitrary: acc) (simp_all add: sorted_insort_by)

lemma insertion_sort_contract: "sort_Slice_contract insertion_sort"
  by (simp add: sort_Slice_contract_def insertion_sort_def mset_foldl_insort sorted_foldl_insort)

lemma reversing_sort_contract: "sort_Slice_contract reversing_sort"
  by (simp add: sort_Slice_contract_def reversing_sort_def insertion_sort_def
      mset_foldl_insort sorted_foldl_insort)

lemma contract_mset: "sort_Slice_contract srt \<Longrightarrow> transitive_ordering lt \<Longrightarrow> mset (srt lt xs) = mset xs"
  by (simp add: sort_Slice_contract_def)

lemma contract_sorted:
  "sort_Slice_contract srt \<Longrightarrow> transitive_ordering lt \<Longrightarrow> sorted_wrt (\<lambda>a b. \<not> lt b a) (srt lt xs)"
  by (simp add: sort_Slice_contract_def)

section \<open>Facts about the vector index\<close>

lemma enumerate_zip_map:
  assumes "length qs = length es"
  shows "map (\<lambda>(i, e). f (qs ! i) e) (enumerate 0 es) = map (\<lambda>(q, e). f q e) (zip qs es)"
  using assms by (intro nth_equalityI) (simp_all add: nth_enumerate_eq)

lemma quotes_NewVectorIndex: "quotes (NewVectorIndex qwe) = map fst qwe"
  by (simp add: NewVectorIndex_def)

lemma embeddings_NewVectorIndex:
  "embeddings (NewVectorIndex qwe) = map (\<lambda>qe. Normalize (snd qe)) qwe"
  by (simp add: NewVectorIndex_def)

lemma length_NewVectorIndex:
  "length (embeddings (NewVectorIndex qwe)) = length (quotes (NewVectorIndex qwe))"
  by (simp add: NewVectorIndex_def)

lemma threshold_loop_filter:
  assumes "\<forall>(i, e)\<in>set es. i < length qs"
  shows "threshold_loop qs nq t es results =
         Inr (results @ filter (\<lambda>m. Similarity m \<ge> t)
                (map (\<lambda>(i, e). \<lparr>Quote = qs ! i, Similarity = CosineSimilarity nq e\<rparr>) es))"
  using assms by (induction es arbitrary: results) (auto simp: Let_def)

lemma threshold_loop_all_matches:
  assumes "length (quotes v) = length (embeddings v)"
  shows "threshold_loop (quotes v) (Normalize q) t (enumerate 0 (embeddings v)) [] =
         Inr (filter (\<lambda>m. Similarity m \<ge> t) (all_matches v q))"
proof -
  have "\<forall>(i, e)\<in>set (enumerate 0 (embeddings v)). i < length (quotes v)"
    using assms by (auto simp: in_set_enumerate_eq)
  moreover have "map (\<lambda>(i, e). \<lparr>Quote = quotes v ! i, Similarity = CosineSimilarity (Normalize q) e\<rparr>)
          (enumerate 0 (embeddings v)) = all_matches v q"
    unfolding all_matches_def using assms by (rule enumerate_zip_map)
  ultimately show ?thesis
    by (simp add: threshold_loop_filter)
qed

lemma SearchWithThreshold_full:
  assumes "sort_Slice_contract srt"
  shows "\<exists>full. mset full = mset (filter (\<lambda>m. Similarity m \<ge> threshold)
                                   (all_matches (NewVectorIndex qwe) q))
           \<and> sorted_wrt (\<lambda>a b. Similarity a \<ge> Similarity b) full
           \<and> SearchWithThreshold srt (NewVectorIndex qwe) q threshold maxResults =
               Inr (if maxResults > 0 then take (nat maxResults) full else full)"
proof (cases "qwe = []")
  case True
  then show ?thesis
    by (simp add: SearchWithThreshold_def all_matches_def NewVectorIndex_def)
next
  case False
  let ?v = "NewVectorIndex qwe"
  let ?cands = "filter (\<lambda>m. Similarity m \<ge> threshold) (all_matches ?v q)"
  let ?full = "srt match_less ?cands"
  have ne: "length (quotes ?v) \<noteq> 0" using False by (simp add: quotes_NewVectorIndex)
  have loop: "threshold_loop (quotes ?v) (Normalize q) threshold (enumerate 0 (embeddings ?v)) []
              = Inr ?cands"
    by (rule threshold_loop_all_matches) (simp add: length_NewVectorIndex)
  have m: "mset ?full = mset ?cands"
    using assms transitive_ordering_match_less by (rule contract_mset)
  have "sorted_wrt (\<lambda>a b. \<not> match_less b a) ?full"
    using assms transitive_ordering_match_less by (rule contract_sorted)
  then have s: "sorted_wrt (\<lambda>a b. Similarity a \<ge> Similarity b) ?full"
    by (simp add: match_less_def not_less)
  have "SearchWithThreshold srt ?v q threshold maxResults =
        Inr (if maxResults > 0 then take (nat maxResults) ?full else ?full)"
    using ne loop by (simp add: SearchWithThreshold_def Let_def)
  with m s show ?thesis by blast
qed

lemma Search_full:
  assumes "sort_Slice_contract srt" and "0 \<le> k"
  shows "\<exists>full. mset full = mset (all_matches (NewVectorIndex qwe) q)
           \<and> sorted_wrt (\<lambda>a b. Similarity a \<ge> Similarity b) full
           \<and> Search srt (NewVectorIndex qwe) q k = Inr (take (nat k) full)"
proof (cases "qwe = []")
  case True
  then show ?thesis
    by (simp add: Search_def all_matches_def NewVectorIndex_def)
next
  case False
  let ?v = "NewVectorIndex qwe"
  let ?scores = "map (\<lambda>(i, emb). (i, CosineSimilarity (Normalize q) emb))
                   (enumerate 0 (embeddings ?v))"
  let ?sorted = "srt search_less ?scores"
  let ?f = "\<lambda>(i, s). \<lparr>Quote = quotes ?v ! i, Similarity = s\<rparr>"
  let ?full = "map ?f ?sorted"
  have ne: "length (quotes ?v) \<noteq> 0" using False by (simp add: quotes_NewVectorIndex)
  have len: "length (embeddings ?v) = length (quotes ?v)" by (rule length_NewVectorIndex)
  have ms: "mset ?sorted = mset ?scores"
    using assms(1) transitive_ordering_search_less by (rule contract_mset)
  have "map ?f ?scores
        = map (\<lambda>(i, e). \<lparr>Quote = quotes ?v ! i, Similarity = CosineSimilarity (Normalize q) e\<rparr>)
            (enumerate 0 (embeddings ?v))"
    by (simp add: case_prod_unfold comp_def)
  also have "\<dots> = all_matches ?v q"
    unfolding all_matches_def using len [symmetric] by (rule enumerate_zip_map)
  finally have fs: "map ?f ?scores = all_matches ?v q" .
  have "mset ?full = image_mset ?f (mset ?sorted)" by (rule mset_map)
  also have "\<dots> = image_mset ?f (mset ?scores)" by (simp only: ms)
  also have "\<dots> = mset (map ?f ?scores)" by (rule mset_map [symmetric])
  finally have m: "mset ?full = mset (all_matches ?v q)" by (simp only: fs)
  have "sorted_wrt (\<lambda>a b. \<not> search_less b a) ?sorted"
    using assms(1) transitive_ordering_search_less by (rule contract_sorted)
  then have s: "sorted_wrt (\<lambda>a b. Similarity a \<ge> Similarity b) ?full"
    by (simp add: sorted_wrt_map search_less_def not_less case_prod_unfold)
  have tk: "take (nat (if k > int (length ?sorted) then int (length ?sorted) else k)) ?sorted
            = take (nat k) ?sorted"
    by auto
  have "Search srt ?v q k = Inr (map ?f (take (nat k) ?sorted))"
    using ne len assms(2) tk by (simp add: Search_def Let_def)
  then have "Search srt ?v q k = Inr (take (nat k) ?full)" by (simp add: take_map)
  with m s show ?thesis by blast
qed

lemma Normalize_unit3 [simp]: "Normalize [1, 0, 0] = [1, 0, 0]" "Normalize [0, 1, 0] = [0, 1, 0]"
  "Normalize [3 / 5, 4 / 5, 0] = [3 / 5, 4 / 5, 0]"
  by (simp_all add: Normalize_def)

lemma index_example_eval:
  "SearchWithThreshold insertion_sort index_example [1, 0, 0] (1 / 2) 1
   = Inr [\<lparr>Quote = quote1, Similarity = 1\<rparr>]"
  by (simp add: SearchWithThreshold_def index_example_def NewVectorIndex_def enumerate_eq_zip
      CosineSimilarity_def insertion_sort_def match_less_def Let_def upt_rec)

lemma index_example_search_eval:
  "Search insertion_sort index_example [1, 0, 0] 2
   = Inr [\<lparr>Quote = quote1, Similarity = 1\<rparr>, \<lparr>Quote = quote3, Similarity = 3 / 5\<rparr>]"
  by (simp add: Search_def index_example_def NewVectorIndex_def enumerate_eq_zip
      CosineSimilarity_def insertion_sort_def search_less_def Let_def upt_rec)

text \<open>
  Claim C3. For every query, threshold and \<open>maxResults\<close>, \<open>SearchWithThreshold\<close> on an index
  built by \<open>NewVectorIndex\<close> returns a result and no error. Every returned entry has a similarity
  of at least the threshold, the entries are in descending order of similarity, and each is a
  quote of the index with its own similarity. When \<open>maxResults\<close> is positive at most
  \<open>maxResults\<close> entries are returned; when it is 0 or negative every entry that reaches the
  threshold is returned. An empty index gives the empty result. This holds for every sorting
  function that meets the contract of \<open>sort.Slice\<close>.
\<close>

theorem SearchWithThreshold_correct:
  assumes "sort_Slice_contract srt"
  shows "\<exists>res. SearchWithThreshold srt (NewVectorIndex qwe) q threshold maxResults = Inr res
           \<and> (\<forall>m\<in>set res. Similarity m \<ge> threshold)
           \<and> sorted_wrt (\<lambda>a b. Similarity a \<ge> Similarity b) res
           \<and> mset res \<subseteq># mset (all_matches (NewVectorIndex qwe) q)
           \<and> (maxResults > 0 \<longrightarrow> int (length res) \<le> maxResults)
           \<and> (maxResults \<le> 0 \<longrightarrow>
                mset res = mset (filter (\<lambda>m. Similarity m \<ge> threshold)
                                   (all_matches (NewVectorIndex qwe) q)))
           \<and> (qwe = [] \<longrightarrow> res = [])"
proof -
  let ?cands = "filter (\<lambda>m. Similarity m \<ge> threshold) (all_matches (NewVectorIndex qwe) q)"
  obtain full where m: "mset full = mset ?cands"
    and s: "sorted_wrt (\<lambda>a b. Similarity a \<ge> Similarity b) full"
    and r: "SearchWithThreshold srt (NewVectorIndex qwe) q threshold maxResults =
              Inr (if maxResults > 0 then take (nat maxResults) full else full)"
    using SearchWithThreshold_full [OF assms] by blast
  let ?res = "if maxResults > 0 then take (nat maxResults) full else full"
  have setfull: "set full = set ?cands" using m by (rule mset_eq_setD)
  have sub: "set ?res \<subseteq> set full" by (auto dest: in_set_takeD)
  have c1: "\<forall>m\<in>set ?res. Similarity m \<ge> threshold" using sub setfull by auto
  have c2: "sorted_wrt (\<lambda>a b. Similarity a \<ge> Similarity b) ?res"
    using s by (simp add: sorted_wrt_take)
  have "mset ?res \<subseteq># mset full"
    by (metis append_take_drop_id mset_append mset_subset_eq_add_left subset_mset.order_refl)
  moreover have "mset ?cands \<subseteq># mset (all_matches (NewVectorIndex qwe) q)"
    by simp
  ultimately have c3: "mset ?res \<subseteq># mset (all_matches (NewVectorIndex qwe) q)"
    using m by (metis subset_mset.order_trans)
  have c4: "maxResults > 0 \<longrightarrow> int (length ?res) \<le> maxResults" by auto
  have c5: "maxResults \<le> 0 \<longrightarrow> mset ?res = mset ?cands" using m by simp
  have c6: "qwe = [] \<longrightarrow> ?res = []"
    using m by (auto simp: all_matches_def NewVectorIndex_def)
  from r c1 c2 c3 c4 c5 c6 show ?thesis by blast
qed

theorem SearchWithThreshold_correct_witness:
  "sort_Slice_contract (insertion_sort :: (VectorMatch \<Rightarrow> VectorMatch \<Rightarrow> bool) \<Rightarrow> _)
   \<and> (\<exists>res. SearchWithThreshold insertion_sort index_example [1, 0, 0] (1 / 2) 1 = Inr res
         \<and> res = [\<lparr>Quote = quote1, Similarity = 1\<rparr>]
         \<and> (\<forall>m\<in>set res. Similarity m \<ge> 1 / 2)
         \<and> int (length res) \<le> 1)"
proof -
  have c: "sort_Slice_contract (insertion_sort :: (VectorMatch \<Rightarrow> VectorMatch \<Rightarrow> bool) \<Rightarrow> _)"
    by (rule insertion_sort_contract)
  obtain res where r: "SearchWithThreshold insertion_sort index_example [1, 0, 0] (1 / 2) 1 = Inr res"
    and t: "\<forall>m\<in>set res. Similarity m \<ge> 1 / 2"
    and l: "(1::int) > 0 \<longrightarrow> int (length res) \<le> 1"
    using SearchWithThreshold_correct [OF c,
        of "[(quote1, [1, 0, 0]), (quote2, [0, 1, 0]), (quote3, [3 / 5, 4 / 5, 0])]"
           "[1, 0, 0]" "1 / 2" 1]
    unfolding index_example_def by blast
  have "res = [\<lparr>Quote = quote1, Similarity = 1\<rparr>]"
    using r index_example_eval by simp
  with c r t l show ?thesis by simp
qed

text \<open>
  Claim C4, as stated, fails in its last part: the code sorts with \<open>sort.Slice\<close>, which does not
  promise to keep equal elements in their original order. The index below has thirteen quotes;
  the quotes 0 and 6 have the same similarity to the query. With a sorting function that meets
  the contract of \<open>sort.Slice\<close> and does not keep equal elements in order, quote 6 comes back
  before quote 0.
\<close>

theorem Search_ties_counterexample:
  "sort_Slice_contract (reversing_sort :: (nat \<times> real \<Rightarrow> nat \<times> real \<Rightarrow> bool) \<Rightarrow> _)
   \<and> map (\<lambda>m. (QuoteID (Quote m), Similarity m)) (all_matches index_thirteen [1, 0])
       = [(0, 3 / 5), (1, 1), (2, 24 / 25), (3, 4 / 5), (4, 12 / 13), (5, 15 / 17), (6, 3 / 5),
          (7, 21 / 29), (8, 20 / 29), (9, 5 / 13), (10, 8 / 17), (11, 7 / 25), (12, 0)]
   \<and> Search reversing_sort index_thirteen [1, 0] 13
       = Inr (map (\<lambda>(n, s). \<lparr>Quote = numbered_quote n, Similarity = s\<rparr>)
           [(1, 1), (2, 24 / 25), (4, 12 / 13), (5, 15 / 17), (3, 4 / 5), (7, 21 / 29),
            (8, 20 / 29), (6, 3 / 5), (0, 3 / 5), (10, 8 / 17), (9, 5 / 13), (11, 7 / 25),
            (12, 0)])"
proof (intro conjI)
  show "sort_Slice_contract (reversing_sort :: (nat \<times> real \<Rightarrow> nat \<times> real \<Rightarrow> bool) \<Rightarrow> _)"
    by (rule reversing_sort_contract)
  show "map (\<lambda>m. (QuoteID (Quote m), Similarity m)) (all_matches index_thirteen [1, 0])
       = [(0, 3 / 5), (1, 1), (2, 24 / 25), (3, 4 / 5), (4, 12 / 13), (5, 15 / 17), (6, 3 / 5),
          (7, 21 / 29), (8, 20 / 29), (9, 5 / 13), (10, 8 / 17), (11, 7 / 25), (12, 0)]"
    by (simp add: all_matches_def index_thirteen_def NewVectorIndex_def CosineSimilarity_def
        Normalize_def numbered_quote_def)
  show "Search reversing_sort index_thirteen [1, 0] 13
       = Inr (map (\<lambda>(n, s). \<lparr>Quote = numbered_quote n, Similarity = s\<rparr>)
           [(1, 1), (2, 24 / 25), (4, 12 / 13), (5, 15 / 17), (3, 4 / 5), (7, 21 / 29),
            (8, 20 / 29), (6, 3 / 5), (0, 3 / 5), (10, 8 / 17), (9, 5 / 13), (11, 7 / 25),
            (12, 0)])"
    by (simp add: Search_def index_thirteen_def NewVectorIndex_def enumerate_eq_zip
        CosineSimilarity_def Normalize_def reversing_sort_def insertion_sort_def
        search_less_def Let_def upt_rec)
qed

text \<open>
  Claim C4, amended. For every index built by \<open>NewVectorIndex\<close>, every query and every
  \<open>k \<ge> 0\<close>, \<open>Search\<close> returns the first \<open>k\<close> entries of a rearrangement of all quotes of the
  index, each with its cosine similarity to the query, that is in descending order of similarity:
  the top \<open>k\<close>. The order among entries of equal similarity is the one \<open>sort.Slice\<close> produces.
\<close>

theorem Search_top_k:
  assumes "sort_Slice_contract srt" and "0 \<le> k"
  shows "\<exists>full. mset full = mset (all_matches (NewVectorIndex qwe) q)
           \<and> sorted_wrt (\<lambda>a b. Similarity a \<ge> Similarity b) full
           \<and> Search srt (NewVectorIndex qwe) q k = Inr (take (nat k) full)"
  using assms by (rule Search_full)

theorem Search_top_k_witness:
  "sort_Slice_contract (insertion_sort :: (nat \<times> real \<Rightarrow> nat \<times> real \<Rightarrow> bool) \<Rightarrow> _)
   \<and> (0::int) \<le> 2
   \<and> (\<exists>full. mset full = mset (all_matches index_example [1, 0, 0])
         \<and> sorted_wrt (\<lambda>a b. Similarity a \<ge> Similarity b) full
         \<and> Search insertion_sort index_example [1, 0, 0] 2 = Inr (take (nat 2) full)
         \<and> take (nat 2) full
             = [\<lparr>Quote = quote1, Similarity = 1\<rparr>, \<lparr>Quote = quote3, Similarity = 3 / 5\<rparr>])"
proof -
  have c: "sort_Slice_contract (insertion_sort :: (nat \<times> real \<Rightarrow> nat \<times> real \<Rightarrow> bool) \<Rightarrow> _)"
    by (rule insertion_sort_contract)
  have k: "(0::int) \<le> 2" by simp
  obtain full where m: "mset full = mset (all_matches index_example [1, 0, 0])"
    and s: "sorted_wrt (\<lambda>a b. Similarity a \<ge> Similarity b) full"
    and r: "Search insertion_sort index_example [1, 0, 0] 2 = Inr (take (nat 2) full)"
    using Search_top_k [OF c k,
        of "[(quote1, [1, 0, 0]), (quote2, [0, 1, 0]), (quote3, [3 / 5, 4 / 5, 0])]" "[1, 0, 0]"]
    unfolding index_example_def by blast
  have "take (nat 2) full
        = [\<lparr>Quote = quote1, Similarity = 1\<rparr>, \<lparr>Quote = quote3, Similarity = 3 / 5\<rparr>]"
    using r index_example_search_eval by simp
  with c k m s r show ?thesis by blast
qed

section \<open>Facts about the post formatter\<close>

lemma RuneLen_pos: "0 < RuneLen r"
  by (simp add: RuneLen_def)

lemma RuneLen_space: "RuneLen space = 1"
  by (simp add: RuneLen_def space_def)

lemma last_index_no_space: "space \<notin> set s \<Longrightarrow> last_index_loop s off found = found"
  by (induction s arbitrary: off found) auto

lemma last_index_append:
  "last_index_loop (a @ space # b) off found =
   last_index_loop b (off + byte_len a + 1) (int (off + byte_len a))"
  by (induction a arbitrary: off found) (simp_all add: byte_len_def RuneLen_space add.assoc)

lemma LastIndex_last_space:
  "space \<notin> set b \<Longrightarrow> LastIndex_space (a @ space # b) = int (byte_len a)"
  by (simp add: LastIndex_space_def last_index_append last_index_no_space)

lemma LastIndex_none: "space \<notin> set s \<Longrightarrow> LastIndex_space s = - 1"
  by (simp add: LastIndex_space_def last_index_no_space)

lemma take_bytes_prefix: "take_bytes (byte_len a) (a @ b) = a"
proof (induction a)
  case Nil
  show ?case using RuneLen_pos by (cases b) (auto simp: byte_len_def not_le)
next
  case (Cons r a)
  then show ?case by (simp add: byte_len_def)
qed

lemma TruncateQuote_short:
  "int (length quote) \<le> maxLen - (4 + int (byte_len attribution) + 4) + 3 \<Longrightarrow>
   TruncateQuote quote maxLen attribution = Inr quote"
  by (simp add: TruncateQuote_def Let_def)

lemma TruncateQuote_panic:
  "maxLen - (4 + int (byte_len attribution) + 4) + 3 < int (length quote) \<Longrightarrow>
   maxLen - (4 + int (byte_len attribution) + 4) < 0 \<Longrightarrow>
   TruncateQuote quote maxLen attribution = Inl (Panic ''slice bounds out of range'')"
  by (simp add: TruncateQuote_def Let_def)

lemma TruncateQuote_no_space:
  assumes "available = maxLen - (4 + int (byte_len attribution) + 4)"
    and "available + 3 < int (length quote)" and "0 \<le> available"
    and "space \<notin> set (take (nat available) quote)"
  shows "TruncateQuote quote maxLen attribution =
         Inr (TrimRight (take (nat available) quote) trim_cutset @ runes ''...'')"
proof -
  have "LastIndex_space (take (nat available) quote) = - 1"
    using assms(4) by (rule LastIndex_none)
  moreover have "\<not> (- 1 :: int) > available div 2" using assms(3) by simp
  ultimately show ?thesis
    using assms(1-3) by (simp add: TruncateQuote_def Let_def)
qed

lemma TruncateQuote_last_space:
  assumes "available = maxLen - (4 + int (byte_len attribution) + 4)"
    and "available + 3 < int (length quote)" and "0 \<le> available"
    and "p < nat available" and "quote ! p = space"
    and "space \<notin> set (drop (Suc p) (take (nat available) quote))"
  shows "TruncateQuote quote maxLen attribution =
         Inr (TrimRight (if int (byte_len (take p quote)) > available div 2
                         then take p quote else take (nat available) quote) trim_cutset
              @ runes ''...'')"
proof -
  let ?t = "take (nat available) quote"
  have len: "nat available < length quote" using assms(2,3) by linarith
  then have pl: "p < length ?t" using assms(4) by simp
  have "?t = take p ?t @ ?t ! p # drop (Suc p) ?t" using pl by (rule id_take_nth_drop)
  moreover have "take p ?t = take p quote" using assms(4) by (simp add: min_def)
  moreover have "?t ! p = space" using assms(4,5) by simp
  ultimately have split: "?t = take p quote @ space # drop (Suc p) ?t" by simp
  have li: "LastIndex_space ?t = int (byte_len (take p quote))"
    using LastIndex_last_space [OF assms(6), of "take p quote"] split by simp
  have tb: "take_bytes (byte_len (take p quote)) ?t = take p quote"
    using take_bytes_prefix [of "take p quote" "space # drop (Suc p) ?t"] split by simp
  show ?thesis
    using assms(1-3) li tb by (simp add: TruncateQuote_def Let_def)
qed


lemmas formatter_eval = quote_words_def quote_no_space_def quote_early_space_def
  attribution_book_def runes_def space_def byte_len_def RuneLen_def TruncateQuote_def
  LastIndex_space_def TrimRight_def trim_cutset_def Let_def

text \<open>
  Claim C6, as stated, fails: the word boundary is used only when the last space lies beyond half
  of the budget. Here the budget is 10 runes, the only space in range is at offset 2, and the
  output is cut between two letters of a word although the range holds a space.
\<close>

theorem TruncateQuote_mid_word_counterexample:
  "TruncateQuote quote_early_space 18 [] = Inr (runes ''ab cdefghi...'')
   \<and> space \<in> set (take 10 quote_early_space)
   \<and> quote_early_space ! 9 \<noteq> space \<and> quote_early_space ! 10 \<noteq> space"
  by (simp add: formatter_eval)

text \<open>
  Claim C6, amended. Let \<open>available\<close> be \<open>maxLen\<close> minus the overhead (8 plus the byte length of
  the attribution). A quote of at most \<open>available + 3\<close> runes is returned unchanged. A longer quote
  is cut to its first \<open>available\<close> runes; if that range holds a space and the byte offset of the
  last one is greater than \<open>available / 2\<close>, the text is cut at that space, so that it ends at a
  word boundary; otherwise (no space in the range, or the last space at or before half of the
  budget) the cut stays at the budget and may fall inside a word. Trailing spaces and punctuation
  are then trimmed and an ellipsis is appended. A longer quote with a negative budget is a panic
  (slice bounds out of range).
\<close>

theorem TruncateQuote_cut:
  assumes "available = maxLen - (4 + int (byte_len attribution) + 4)"
  shows
    "(int (length quote) \<le> available + 3 \<longrightarrow> TruncateQuote quote maxLen attribution = Inr quote)
     \<and> (available + 3 < int (length quote) \<and> available < 0 \<longrightarrow>
          TruncateQuote quote maxLen attribution = Inl (Panic ''slice bounds out of range''))
     \<and> (available + 3 < int (length quote) \<and> 0 \<le> available
          \<and> space \<notin> set (take (nat available) quote) \<longrightarrow>
          TruncateQuote quote maxLen attribution =
            Inr (TrimRight (take (nat available) quote) trim_cutset @ runes ''...''))
     \<and> (available + 3 < int (length quote) \<and> 0 \<le> available
          \<and> p < nat available \<and> quote ! p = space
          \<and> space \<notin> set (drop (Suc p) (take (nat available) quote)) \<longrightarrow>
          TruncateQuote quote maxLen attribution =
            Inr (TrimRight (if int (byte_len (take p quote)) > available div 2
                            then take p quote else take (nat available) quote) trim_cutset
                 @ runes ''...''))"
  using assms TruncateQuote_short [of quote maxLen attribution]
    TruncateQuote_panic [of maxLen attribution quote]
    TruncateQuote_no_space [of available maxLen attribution quote]
    TruncateQuote_last_space [of available maxLen attribution quote p]
  by blast

theorem TruncateQuote_cut_witness:
  "(14::int) = 30 - (4 + int (byte_len attribution_book) + 4)
   \<and> 14 + 3 < int (length quote_words) \<and> (0::int) \<le> 14
   \<and> 11 < nat 14 \<and> quote_words ! 11 = space
   \<and> space \<notin> set (drop (Suc 11) (take (nat 14) quote_words))
   \<and> int (byte_len (take 11 quote_words)) > 14 div 2
   \<and> TruncateQuote quote_words 30 attribution_book = Inr (runes ''Word1 word2...'')
   \<and> (10::int) = 18 - (4 + int (byte_len []) + 4)
   \<and> 10 + 3 < int (length quote_no_space) \<and> (0::int) \<le> 10
   \<and> space \<notin> set (take (nat 10) quote_no_space)
   \<and> TruncateQuote quote_no_space 18 [] = Inr (runes ''abcdefghij...'')
   \<and> int (length (runes ''Short quote.'')) \<le> 84 + 3
   \<and> TruncateQuote (runes ''Short quote.'') 100 attribution_book = Inr (runes ''Short quote.'')
   \<and> (- 3::int) = 5 - (4 + int (byte_len []) + 4)
   \<and> - 3 + 3 < int (length (runes ''a'')) \<and> (- 3::int) < 0
   \<and> TruncateQuote (runes ''a'') 5 [] = Inl (Panic ''slice bounds out of range'')"
proof -
  have a1: "(14::int) = 30 - (4 + int (byte_len attribution_book) + 4)" by (simp add: formatter_eval)
  have h1: "14 + 3 < int (length quote_words) \<and> (0::int) \<le> 14
            \<and> 11 < nat 14 \<and> quote_words ! 11 = space
            \<and> space \<notin> set (drop (Suc 11) (take (nat 14) quote_words))" by (simp add: formatter_eval)
  have g1: "int (byte_len (take 11 quote_words)) > 14 div 2" by (simp add: formatter_eval)
  have t1: "TrimRight (take 11 quote_words) trim_cutset @ runes ''...'' = runes ''Word1 word2...''"
    by (simp add: formatter_eval)
  have r1: "TruncateQuote quote_words 30 attribution_book = Inr (runes ''Word1 word2...'')"
    using TruncateQuote_cut [OF a1, of quote_words 11] h1 g1 t1 by simp
  have a2: "(10::int) = 18 - (4 + int (byte_len []) + 4)" by (simp add: formatter_eval)
  have h2: "10 + 3 < int (length quote_no_space) \<and> (0::int) \<le> 10
            \<and> space \<notin> set (take (nat 10) quote_no_space)" by (simp add: formatter_eval)
  have t2: "TrimRight (take (nat 10) quote_no_space) trim_cutset @ runes ''...''
            = runes ''abcdefghij...''" by (simp add: formatter_eval)
  have r2: "TruncateQuote quote_no_space 18 [] = Inr (runes ''abcdefghij...'')"
    using TruncateQuote_cut [OF a2, of quote_no_space 0] h2 t2 by simp
  have a3: "(84::int) = 100 - (4 + int (byte_len attribution_book) + 4)" by (simp add: formatter_eval)
  have h3: "int (length (runes ''Short quote.'')) \<le> 84 + 3" by (simp add: formatter_eval)
  have r3: "TruncateQuote (runes ''Short quote.'') 100 attribution_book = Inr (runes ''Short quote.'')"
    using TruncateQuote_cut [OF a3, of "runes ''Short quote.''" 0] h3 by blast
  have a4: "(- 3::int) = 5 - (4 + int (byte_len []) + 4)" by (simp add: formatter_eval)
  have h4: "- 3 + 3 < int (length (runes ''a'')) \<and> (- 3::int) < 0" by (simp add: formatter_eval)
  have r4: "TruncateQuote (runes ''a'') 5 [] = Inl (Panic ''slice bounds out of range'')"
    using TruncateQuote_cut [OF a4, of "runes ''a''" 0] h4 by blast
  from a1 h1 g1 r1 a2 h2 r2 h3 r3 a4 h4 r4 show ?thesis by blast
qed

section \<open>Facts about the trend aggregator\<close>

lemma Get_found:
  assumes "faults st = []" and "rows_for st source (Some e) \<noteq> []"
  shows "\<exists>r. GetTrendBySourceAndExternalID st source (Some e) = Inr r"
proof -
  have "find (\<lambda>r. TrendSource r = source \<and> Some e \<noteq> None \<and> TrendExternalID r = Some e)
          (trends_tbl st) \<noteq> None"
    using assms(2) by (auto simp: rows_for_def find_None_iff filter_empty_conv)
  then show ?thesis
    using assms(1) by (auto simp: GetTrendBySourceAndExternalID_def)
qed

lemma Get_not_found:
  assumes "faults st = []" and "rows_for st source (Some e) = []"
  shows "GetTrendBySourceAndExternalID st source (Some e) = Inl ErrNoRows"
proof -
  have "find (\<lambda>r. TrendSource r = source \<and> Some e \<noteq> None \<and> TrendExternalID r = Some e)
          (trends_tbl st) = None"
    using assms(2) by (auto simp: rows_for_def find_None_iff filter_empty_conv)
  then show ?thesis
    using assms(1) by (simp add: GetTrendBySourceAndExternalID_def)
qed

lemma Get_never_new:
  assumes "rows_for st source (Some e) \<noteq> []"
  shows "GetTrendBySourceAndExternalID st source (Some e) \<noteq> Inl ErrNoRows"
proof -
  have "find (\<lambda>r. TrendSource r = source \<and> Some e \<noteq> None \<and> TrendExternalID r = Some e)
          (trends_tbl st) \<noteq> None"
    using assms by (auto simp: rows_for_def find_None_iff filter_empty_conv)
  then show ?thesis
    by (auto simp: GetTrendBySourceAndExternalID_def db_error_def ErrNoRows_def)
qed

lemma storeTrend_existing:
  assumes "faults st = []" and "rows_for st (Source t) (Some (ExternalID t)) \<noteq> []"
  shows "storeTrend st t = (Inr False, st)"
  using Get_found [OF assms] by (auto simp: storeTrend_def)

lemma storeTrend_new:
  assumes "faults st = []" and "ExternalID t \<noteq> []"
    and "rows_for st (Source t) (Some (ExternalID t)) = []"
  shows "\<exists>st'. storeTrend st t = (Inr True, st') \<and> faults st' = []
           \<and> length (rows_for st' (Source t) (Some (ExternalID t))) = 1"
proof -
  have nodup: "\<not> (\<exists>r\<in>set (trends_tbl st). TrendSource r = Source t
                      \<and> TrendExternalID r = Some (ExternalID t))"
    using assms(3) by (auto simp: rows_for_def filter_empty_conv)
  show ?thesis
    using assms(1,2) nodup Get_not_found [OF assms(1,3)] assms(3)
    by (simp add: storeTrend_def CreateTrend_def null_string_def Let_def rows_for_def)
qed

lemma storeTrend_rows_grow:
  "set (trends_tbl st) \<subseteq> set (trends_tbl (snd (storeTrend st t)))"
  by (auto simp: storeTrend_def CreateTrend_def Let_def split: sum.splits if_splits)

lemma rows_for_mono:
  "set (trends_tbl st) \<subseteq> set (trends_tbl st') \<Longrightarrow> rows_for st s e \<noteq> [] \<Longrightarrow> rows_for st' s e \<noteq> []"
  by (auto simp: rows_for_def filter_empty_conv)

lemma storeTrend_never_new:
  assumes "rows_for st (Source t) (Some (ExternalID t)) \<noteq> []"
  shows "fst (storeTrend st t) \<noteq> Inr True"
  using Get_never_new [OF assms]
  by (auto simp: storeTrend_def split: sum.splits)

lemma store_loop_excludes:
  assumes "rows_for st s (Some e) \<noteq> []"
    and "\<forall>t'\<in>set acc. \<not> (Source t' = s \<and> ExternalID t' = e)"
  shows "\<forall>t'\<in>set (fst (store_loop st ts acc)). \<not> (Source t' = s \<and> ExternalID t' = e)"
  using assms
proof (induction ts arbitrary: st acc)
  case Nil
  then show ?case by simp
next
  case (Cons t ts)
  obtain r st' where step: "storeTrend st t = (r, st')" by (cases "storeTrend st t")
  have "set (trends_tbl st) \<subseteq> set (trends_tbl st')"
    using storeTrend_rows_grow [of st t] step by simp
  then have rows': "rows_for st' s (Some e) \<noteq> []"
    using Cons.prems(1) by (rule rows_for_mono)
  show ?case
  proof (cases r)
    case (Inl err)
    then show ?thesis using step Cons.IH [OF rows' Cons.prems(2)] by simp
  next
    case (Inr isNew)
    show ?thesis
    proof (cases "isNew \<and> Source t = s \<and> ExternalID t = e")
      case True
      then have "fst (storeTrend st t) \<noteq> Inr True"
        using storeTrend_never_new [of st t] Cons.prems(1) by simp
      then show ?thesis using step Inr True by simp
    next
      case False
      then have "\<forall>t'\<in>set (if isNew then acc @ [t] else acc). \<not> (Source t' = s \<and> ExternalID t' = e)"
        using Cons.prems(2) by auto
      then show ?thesis using step Inr Cons.IH [OF rows'] by simp
    qed
  qed
qed

lemma FetchAndStore_excludes:
  assumes "rows_for st s (Some e) \<noteq> []"
  shows "\<exists>new st'. FetchAndStore a st = (Inr new, st')
           \<and> (\<forall>t'\<in>set new. \<not> (Source t' = s \<and> ExternalID t' = e))"
proof -
  let ?ts = "FilterTrends (agg_filter a) (fetch_loop (monitors a) [])"
  obtain new st' where sl: "store_loop st ?ts [] = (new, st')" by (cases "store_loop st ?ts []")
  have "\<forall>t'\<in>set (fst (store_loop st ?ts [])). \<not> (Source t' = s \<and> ExternalID t' = e)"
    using assms by (intro store_loop_excludes) simp_all
  then show ?thesis using sl by (simp add: FetchAndStore_def Let_def)
qed


lemmas store_eval = storeTrend_def GetTrendBySourceAndExternalID_def CreateTrend_def
  null_string_def empty_store_def trend_hn_def trend_no_id_def ErrNoRows_def db_error_def
  next_id_def rows_for_def Let_def

text \<open>
  Claim C5, as stated, fails for a trend without an external identifier: the row is inserted
  with \<open>external_id\<close> \<open>NULL\<close>, the look-up compares with the empty string and never finds it, and
  the unique index does not apply to \<open>NULL\<close>. Storing such a trend twice reports it as new both
  times and leaves two rows.
\<close>

theorem storeTrend_no_id_counterexample:
  "fst (storeTrend empty_store trend_no_id) = Inr True
   \<and> fst (storeTrend (snd (storeTrend empty_store trend_no_id)) trend_no_id) = Inr True
   \<and> length (trends_tbl (snd (storeTrend (snd (storeTrend empty_store trend_no_id)) trend_no_id)))
       = 2"
  by (simp add: store_eval)

text \<open>
  Claim C5, amended. For every trend whose external identifier is not empty, on a store whose
  queries succeed: storing the trend and then storing it again reports "not new" the second
  time and changes nothing; if no row with its source and external identifier existed before,
  the first call reports "new" and exactly one such row is persisted afterwards, and if one
  existed the first call reports "not new" and changes nothing. Once the trend is stored,
  \<open>FetchAndStore\<close> returns no trend with that source and external identifier in its list of
  new trends.
\<close>

theorem storeTrend_idempotent:
  assumes "faults st = []" and "ExternalID t \<noteq> []"
  shows "\<exists>r1 st1. storeTrend st t = (r1, st1)
           \<and> storeTrend st1 t = (Inr False, st1)
           \<and> (rows_for st (Source t) (Some (ExternalID t)) = [] \<longrightarrow>
                r1 = Inr True \<and> length (rows_for st1 (Source t) (Some (ExternalID t))) = 1)
           \<and> (rows_for st (Source t) (Some (ExternalID t)) \<noteq> [] \<longrightarrow>
                r1 = Inr False \<and> st1 = st)
           \<and> (\<exists>new st2. FetchAndStore a st1 = (Inr new, st2)
                \<and> (\<forall>t'\<in>set new. \<not> (Source t' = Source t \<and> ExternalID t' = ExternalID t)))"
proof (cases "rows_for st (Source t) (Some (ExternalID t)) = []")
  case True
  obtain st1 where s1: "storeTrend st t = (Inr True, st1)" and f1: "faults st1 = []"
    and l1: "length (rows_for st1 (Source t) (Some (ExternalID t))) = 1"
    using storeTrend_new [OF assms True] by blast
  have ne: "rows_for st1 (Source t) (Some (ExternalID t)) \<noteq> []" using l1 by auto
  have s2: "storeTrend st1 t = (Inr False, st1)" using f1 ne by (rule storeTrend_existing)
  show ?thesis using True s1 s2 l1 FetchAndStore_excludes [OF ne, of a] by auto
next
  case False
  have s1: "storeTrend st t = (Inr False, st)" using assms(1) False by (rule storeTrend_existing)
  show ?thesis using False s1 FetchAndStore_excludes [OF False, of a] by auto
qed

theorem storeTrend_idempotent_witness:
  "faults empty_store = [] \<and> ExternalID trend_hn \<noteq> []
   \<and> rows_for empty_store (Source trend_hn) (Some (ExternalID trend_hn)) = []
   \<and> (\<exists>st1. storeTrend empty_store trend_hn = (Inr True, st1)
         \<and> storeTrend st1 trend_hn = (Inr False, st1)
         \<and> length (rows_for st1 (Source trend_hn) (Some (ExternalID trend_hn))) = 1
         \<and> (\<exists>new st2. FetchAndStore aggregator_example st1 = (Inr new, st2)
              \<and> (\<forall>t'\<in>set new. \<not> (Source t' = Source trend_hn
                                     \<and> ExternalID t' = ExternalID trend_hn))))"
proof -
  have h1: "faults empty_store = []" by (simp add: empty_store_def)
  have h2: "ExternalID trend_hn \<noteq> []" by (simp add: trend_hn_def)
  have h3: "rows_for empty_store (Source trend_hn) (Some (ExternalID trend_hn)) = []"
    by (simp add: rows_for_def empty_store_def)
  from storeTrend_idempotent [OF h1 h2, of aggregator_example] h3
  have "\<exists>st1. storeTrend empty_store trend_hn = (Inr True, st1)
         \<and> storeTrend st1 trend_hn = (Inr False, st1)
         \<and> length (rows_for st1 (Source trend_hn) (Some (ExternalID trend_hn))) = 1
         \<and> (\<exists>new st2. FetchAndStore aggregator_example st1 = (Inr new, st2)
              \<and> (\<forall>t'\<in>set new. \<not> (Source t' = Source trend_hn
                                     \<and> ExternalID t' = ExternalID trend_hn)))"
    by auto
  with h1 h2 h3 show ?thesis by blast
qed

section \<open>Facts about the relevance selector\<close>

lemma EvaluateBatch_whole_response:
  assumes "qs \<noteq> []"
    and "Complete s SelectionSystemPrompt (batch_prompt trend qs) = Inr response"
    and "extractJSON response = []"
  shows "EvaluateBatch decode s trend qs =
         (case Unmarshal decode response of
            Inl err \<Rightarrow> Inl (wrap ''parse response'' err)
          | Inr result \<Rightarrow> Inr result)"
  using assms by (simp add: EvaluateBatch_def Let_def split: sum.splits)

lemma Unmarshal_rejects:
  assumes "\<forall>c rest. dropWhile is_json_space data = c # rest \<longrightarrow> \<not> begins_json_value c"
  shows "\<exists>msg. Unmarshal decode data = Inl (Error msg)"
  using assms by (auto simp: Unmarshal_def split: list.splits)

lemma EvaluateBatch_complete_error:
  assumes "qs \<noteq> []"
    and "Complete s SelectionSystemPrompt (batch_prompt trend qs) = Inl err"
  shows "EvaluateBatch decode s trend qs = Inl (wrap ''claude complete'' err)"
  using assms by (simp add: EvaluateBatch_def Let_def)

lemma extractJSON_prose: "extractJSON ''None of these quotes fit the topic.'' = []"
  by (simp add: extractJSON_def)

lemma extractJSON_in_prose: "extractJSON response_in_prose = response_json"
  by (simp add: extractJSON_def response_in_prose_def response_json_def dq_def)

lemma Unmarshal_brace: "Unmarshal decode (CHR ''{'' # rest) = decode (CHR ''{'' # rest)"
  by (simp add: Unmarshal_def is_json_space_def begins_json_value_def)

lemma response_json_brace: "\<exists>rest. response_json = CHR ''{'' # rest"
  by (simp add: response_json_def)

lemma Unmarshal_response_json: "Unmarshal decode response_json = decode response_json"
  using response_json_brace Unmarshal_brace by metis

lemma EvaluateBatch_json_eval:
  assumes "qs \<noteq> []"
  shows "EvaluateBatch decode selector_json trend qs =
     (case decode response_json of
        Inl err \<Rightarrow> Inl (wrap ''parse response'' err)
      | Inr result \<Rightarrow> Inr result)"
proof -
  have ne: "response_json \<noteq> []" using response_json_brace by auto
  show ?thesis
    using ne assms
    by (simp add: EvaluateBatch_def selector_json_def extractJSON_in_prose
        Unmarshal_response_json Let_def split: sum.splits)
qed

text \<open>
  Claim C1, as stated, fails: when the response holds no balanced JSON object the whole
  response is given to the JSON decoder, and the failure of the decoder is returned as an
  error. Here the service answers in prose; even with a stand-in for the rest of the decoder
  that accepts everything as "none suitable", the result is an error and not a "no suitable
  match" result.
\<close>

theorem EvaluateBatch_prose_counterexample:
  "extractJSON ''None of these quotes fit the topic.'' = []
   \<and> EvaluateBatch decode_none_suitable selector_prose db_trend_example [quote1]
       = Inl (Error ''parse response: invalid character looking for beginning of value'')"
  by (simp add: EvaluateBatch_def selector_prose_def extractJSON_def Unmarshal_def
      is_json_space_def begins_json_value_def dq_def Let_def)

text \<open>
  Claim C1, amended. For a non-empty list of quotes and a completion response that holds no
  balanced JSON object, \<open>EvaluateBatch\<close> gives the whole response to the JSON decoder: when the
  decoder fails the result is the error "parse response: ...", and this is so for every response
  that is empty, blank, or whose first byte after white space cannot begin a JSON value; when
  the decoder succeeds the result is what it decoded, best-match index included. A failed
  completion call is the error "claude complete: ...".
\<close>

theorem EvaluateBatch_no_json:
  assumes "qs \<noteq> []"
  shows
    "(Complete s SelectionSystemPrompt (batch_prompt trend qs) = Inr response
        \<and> extractJSON response = [] \<longrightarrow>
      EvaluateBatch decode s trend qs =
        (case Unmarshal decode response of
           Inl err \<Rightarrow> Inl (wrap ''parse response'' err)
         | Inr result \<Rightarrow> Inr result))
     \<and> (Complete s SelectionSystemPrompt (batch_prompt trend qs) = Inr response
        \<and> extractJSON response = []
        \<and> (\<forall>c rest. dropWhile is_json_space response = c # rest \<longrightarrow> \<not> begins_json_value c) \<longrightarrow>
      (\<exists>msg. EvaluateBatch decode s trend qs = Inl (Error (''parse response: '' @ msg))))
     \<and> (Complete s SelectionSystemPrompt (batch_prompt trend qs) = Inl err \<longrightarrow>
      EvaluateBatch decode s trend qs = Inl (wrap ''claude complete'' err))"
proof (intro conjI impI)
  assume a: "Complete s SelectionSystemPrompt (batch_prompt trend qs) = Inr response
             \<and> extractJSON response = []"
  then show "EvaluateBatch decode s trend qs =
        (case Unmarshal decode response of
           Inl err \<Rightarrow> Inl (wrap ''parse response'' err)
         | Inr result \<Rightarrow> Inr result)"
    using assms EvaluateBatch_whole_response by blast
next
  assume a: "Complete s SelectionSystemPrompt (batch_prompt trend qs) = Inr response
             \<and> extractJSON response = []
             \<and> (\<forall>c rest. dropWhile is_json_space response = c # rest \<longrightarrow> \<not> begins_json_value c)"
  then obtain msg where "Unmarshal decode response = Inl (Error msg)"
    using Unmarshal_rejects by blast
  moreover have "EvaluateBatch decode s trend qs =
        (case Unmarshal decode response of
           Inl err \<Rightarrow> Inl (wrap ''parse response'' err)
         | Inr result \<Rightarrow> Inr result)"
    using a assms EvaluateBatch_whole_response by blast
  ultimately show "\<exists>msg. EvaluateBatch decode s trend qs = Inl (Error (''parse response: '' @ msg))"
    by simp
next
  assume "Complete s SelectionSystemPrompt (batch_prompt trend qs) = Inl err"
  with assms show "EvaluateBatch decode s trend qs = Inl (wrap ''claude complete'' err)"
    by (rule EvaluateBatch_complete_error)
qed

theorem EvaluateBatch_no_json_witness:
  "[quote1] \<noteq> []
   \<and> Complete selector_prose SelectionSystemPrompt (batch_prompt db_trend_example [quote1])
       = Inr ''None of these quotes fit the topic.''
   \<and> extractJSON ''None of these quotes fit the topic.'' = []
   \<and> (\<exists>msg. EvaluateBatch decode_example selector_prose db_trend_example [quote1]
              = Inl (Error (''parse response: '' @ msg)))"
proof -
  have h0: "[quote1] \<noteq> []" by simp
  have h1: "Complete selector_prose SelectionSystemPrompt (batch_prompt db_trend_example [quote1])
            = Inr ''None of these quotes fit the topic.''"
    by (simp add: selector_prose_def)
  have h2: "extractJSON ''None of these quotes fit the topic.'' = []"
    by (rule extractJSON_prose)
  have h3: "\<forall>c rest. dropWhile is_json_space ''None of these quotes fit the topic.'' = c # rest
              \<longrightarrow> \<not> begins_json_value c"
    by (simp add: is_json_space_def begins_json_value_def dq_def)
  have "\<exists>msg. EvaluateBatch decode_example selector_prose db_trend_example [quote1]
              = Inl (Error (''parse response: '' @ msg))"
    using EvaluateBatch_no_json [OF h0, of selector_prose db_trend_example
        "''None of these quotes fit the topic.''" decode_example] h1 h2 h3
    by blast
  with h0 h1 h2 show ?thesis by blast
qed

section \<open>Facts about the matching engine\<close>






lemma Match_matched:
  assumes "ensure_index m st = Inr m1" and "IndexSize m1 \<noteq> 0"
    and "find_candidates srt m1 st (trend_text trend) = Inr cs" and "cs \<noteq> []"
    and "EvaluateBatch decode (selector m1) trend (map Quote cs) = Inr b"
    and "0 \<le> BestMatchIndex b" and "BestMatchIndex b < int (length cs)"
    and "\<not> best_relevance b < minRelevance m1"
  shows "Match srt decode m st trend =
         (Inr (Some \<lparr>MatchQuote = Quote (cs ! nat (BestMatchIndex b)), MatchTrend = trend,
                      VectorSimilarity = Similarity (cs ! nat (BestMatchIndex b)),
                      RelevanceScore = best_relevance b, Reasoning = best_reasoning b\<rparr>), m1)"
  using assms by (auto simp: Match_def Let_def)



lemma hybrid_loop_below:
  "\<forall>r\<in>set results. ResultSimilarity r < minSimilarity m \<Longrightarrow>
   hybrid_loop m st results cands = cands"
  by (induction results arbitrary: cands) simp_all

lemma find_candidates_hybrid_below:
  assumes "quoteStore m = Some qs"
    and "HybridSearch qs text (candidateCount m) 1 (3 / 10) = Inr results"
    and "\<forall>r\<in>set results. ResultSimilarity r < minSimilarity m"
  shows "find_candidates srt m st text = Inr []"
  using assms by (simp add: find_candidates_def hybrid_loop_below)








lemma index_example_threshold_eval:
  "SearchWithThreshold insertion_sort index_example [1, 0, 0] (1 / 2) 10
   = Inr [\<lparr>Quote = quote1, Similarity = 1\<rparr>, \<lparr>Quote = quote3, Similarity = 3 / 5\<rparr>]"
  by (simp add: SearchWithThreshold_def index_example_def NewVectorIndex_def enumerate_eq_zip
      CosineSimilarity_def insertion_sort_def match_less_def Let_def upt_rec)

lemma matcher_example_ready:
  "ensure_index (matcher_example\<lparr>minRelevance := r\<rparr>) st = Inr (matcher_example\<lparr>minRelevance := r\<rparr>)"
  "IndexSize (matcher_example\<lparr>minRelevance := r\<rparr>) \<noteq> 0"
  "ensure_index matcher_example st = Inr matcher_example"
  "IndexSize matcher_example \<noteq> 0"
  "ensure_index (matcher_example\<lparr>minSimilarity := t\<rparr>) st = Inr (matcher_example\<lparr>minSimilarity := t\<rparr>)"
  "IndexSize (matcher_example\<lparr>minSimilarity := t\<rparr>) \<noteq> 0"
  "ensure_index (matcher_example\<lparr>embedder := e\<rparr>) st = Inr (matcher_example\<lparr>embedder := e\<rparr>)"
  "IndexSize (matcher_example\<lparr>embedder := e\<rparr>) \<noteq> 0"
  "ensure_index (matcher_example\<lparr>selector := s\<rparr>) st = Inr (matcher_example\<lparr>selector := s\<rparr>)"
  "IndexSize (matcher_example\<lparr>selector := s\<rparr>) \<noteq> 0"
  by (simp_all add: ensure_index_def IndexSize_def matcher_example_def Size_def index_example_def
      NewVectorIndex_def)


lemma find_candidates_example:
  "find_candidates insertion_sort (matcher_example\<lparr>minRelevance := r\<rparr>) st text
   = Inr [\<lparr>Quote = quote1, Similarity = 1\<rparr>, \<lparr>Quote = quote3, Similarity = 3 / 5\<rparr>]"
  "find_candidates insertion_sort matcher_example st text
   = Inr [\<lparr>Quote = quote1, Similarity = 1\<rparr>, \<lparr>Quote = quote3, Similarity = 3 / 5\<rparr>]"
  "find_candidates insertion_sort (matcher_example\<lparr>selector := s\<rparr>) st text
   = Inr [\<lparr>Quote = quote1, Similarity = 1\<rparr>, \<lparr>Quote = quote3, Similarity = 3 / 5\<rparr>]"
  by (simp_all add: find_candidates_def matcher_example_def embedder_ok_def
      index_example_threshold_eval)

lemma find_candidates_hybrid_example:
  "find_candidates srt matcher_hybrid store_with_quotes text
   = Inr [\<lparr>Quote = quote1, Similarity = 9 / 10\<rparr>, \<lparr>Quote = quote3, Similarity = 6 / 10\<rparr>]"
  by (simp add: find_candidates_def matcher_hybrid_def quote_store_example_def HybridSearch_def
      convertResults_def GetQuote_def store_with_quotes_def quote1_def quote2_def quote3_def)


lemma decode_example_result:
  "decode_example response_json =
     Inr \<lparr>BestMatchIndex = 0,
          Evaluations = [\<lparr>Index = 0, EvalScore = 3 / 4, EvalReasoning = ''apt''\<rparr>],
          Recommendation = ''ok''\<rparr>"
  by (simp add: decode_example_def)

text \<open>
  The scenario of the specification: the selector names candidate 0 with score 0.75, the
  minimum relevance is 0.6, and the trend is matched with that score and reasoning.
\<close>

lemma Match_example_matched:
  "Match insertion_sort decode_example matcher_example st db_trend_example =
     (Inr (Some \<lparr>MatchQuote = quote1, MatchTrend = db_trend_example, VectorSimilarity = 1,
                  RelevanceScore = 3 / 4, Reasoning = ''apt''\<rparr>), matcher_example)"
proof -
  let ?cs = "[\<lparr>Quote = quote1, Similarity = 1\<rparr>, \<lparr>Quote = quote3, Similarity = 3 / 5\<rparr>]"
  let ?b = "\<lparr>BestMatchIndex = 0,
             Evaluations = [\<lparr>Index = 0, EvalScore = 3 / 4, EvalReasoning = ''apt''\<rparr>],
             Recommendation = ''ok''\<rparr>"
  have eb: "EvaluateBatch decode_example (selector matcher_example) db_trend_example
              (map Quote ?cs) = Inr ?b"
    by (simp add: matcher_example_def EvaluateBatch_json_eval decode_example_result)
  have "Match insertion_sort decode_example matcher_example st db_trend_example =
         (Inr (Some \<lparr>MatchQuote = Quote (?cs ! nat (BestMatchIndex ?b)),
                      MatchTrend = db_trend_example,
                      VectorSimilarity = Similarity (?cs ! nat (BestMatchIndex ?b)),
                      RelevanceScore = best_relevance ?b, Reasoning = best_reasoning ?b\<rparr>),
          matcher_example)"
    using matcher_example_ready(3,4) find_candidates_example(2) _ eb
    by (rule Match_matched)
      (simp_all add: best_relevance_def best_eval_def matcher_example_def)
  then show ?thesis
    by (simp add: best_relevance_def best_reasoning_def best_eval_def)
qed


subsection \<open>The outcomes of \<open>Match\<close>\<close>









section \<open>Facts about the post cycle of the scheduler\<close>

lemma runPostCycle_at_limit:
  assumes "CountPostsToday (store s) ''bluesky'' = Inr n" and "n \<ge> MaxPostsPerDay s"
  shows "runPostCycle srt decode h s = s"
  using assms by (simp add: runPostCycle_def)

lemma runPostCycle_count_fails:
  assumes "CountPostsToday (store s) ''bluesky'' = Inl err"
  shows "runPostCycle srt decode h s = post_cycle_body srt decode h s"
  using assms by (simp add: runPostCycle_def)

lemma runPostCycle_below_limit:
  assumes "CountPostsToday (store s) ''bluesky'' = Inr n" and "n < MaxPostsPerDay s"
  shows "runPostCycle srt decode h s = post_cycle_body srt decode h s"
  using assms by (simp add: runPostCycle_def)

lemma unmatched_example:
  "GetUnmatchedTrends store_count_fails 10 = Inr [db_trend_example]"
  by (simp add: GetUnmatchedTrends_def ListUnmatchedTrends_def store_count_fails_def
      db_trend_example_def)

lemma match_loop_example:
  "match_loop insertion_sort decode_example [db_trend_example] matcher_example st =
     (Some \<lparr>MatchQuote = quote1, MatchTrend = db_trend_example, VectorSimilarity = 1,
             RelevanceScore = 3 / 4, Reasoning = ''apt''\<rparr>, matcher_example, st)"
  by (simp add: Match_example_matched)

lemma post_cycle_body_example:
  "published (post_cycle_body insertion_sort decode_example id scheduler_count_fails)
     = [content_example]
   \<and> length (posts_tbl (store (post_cycle_body insertion_sort decode_example id
                                   scheduler_count_fails))) = 2"
  by (simp add: post_cycle_body_def scheduler_count_fails_def unmatched_example
      Match_example_matched poster_ok_def Let_def)
    (simp add: content_example_def FormatQuote_def quote1_def
      CreatePost_def UpdateTrendMatched_def UpdateQuotePosted_def store_count_fails_def
      post_of_today_def HashTrend_def db_trend_example_def Let_def null_string_def)


lemma unmatched_at_limit:
  "GetUnmatchedTrends (store_count_fails\<lparr>faults := []\<rparr>) 10 = Inr [db_trend_example]"
  by (simp add: GetUnmatchedTrends_def ListUnmatchedTrends_def store_count_fails_def
      db_trend_example_def)

lemma post_cycle_body_at_limit:
  "published (post_cycle_body insertion_sort decode_example id scheduler_at_limit)
     = [content_example]"
  by (simp add: post_cycle_body_def scheduler_at_limit_def scheduler_count_fails_def
      unmatched_at_limit Match_example_matched poster_ok_def Let_def)
    (simp add: content_example_def FormatQuote_def quote1_def db_trend_example_def)

lemma count_example_fails:
  "CountPostsToday (store scheduler_count_fails) ''bluesky'' = Inl db_error"
  by (simp add: CountPostsToday_def scheduler_count_fails_def store_count_fails_def)

lemma posts_today_example:
  "length (posts_today (store scheduler_count_fails) ''bluesky'') = 1"
  "length (posts_today (store scheduler_at_limit) ''bluesky'') = 1"
  by (simp_all add: posts_today_def scheduler_at_limit_def scheduler_count_fails_def
      store_count_fails_def post_of_today_def day_start_def)

text \<open>
  Claim C8, as stated, fails when the count query itself fails: here one post of today is
  recorded and the daily limit is 1, the count query returns an error, and the cycle publishes
  a post and records it.
\<close>

theorem runPostCycle_quota_counterexample:
  "int (length (posts_today (store scheduler_count_fails) ''bluesky''))
     \<ge> MaxPostsPerDay scheduler_count_fails
   \<and> published scheduler_count_fails = []
   \<and> published (runPostCycle insertion_sort decode_example id scheduler_count_fails)
       = [content_example]
   \<and> length (posts_tbl (store scheduler_count_fails)) = 1
   \<and> length (posts_tbl (store (runPostCycle insertion_sort decode_example id
                                 scheduler_count_fails))) = 2"
proof -
  have "runPostCycle insertion_sort decode_example id scheduler_count_fails
        = post_cycle_body insertion_sort decode_example id scheduler_count_fails"
    using count_example_fails by (rule runPostCycle_count_fails)
  then show ?thesis
    using post_cycle_body_example posts_today_example(1)
    by (simp add: scheduler_count_fails_def store_count_fails_def)
qed

text \<open>
  Claim C8, amended. Whenever the count query succeeds and the number of posts recorded today
  for the platform equals or exceeds \<open>MaxPostsPerDay\<close>, the post cycle changes nothing: it makes
  no call to the publishing capability and records no post.
\<close>

theorem runPostCycle_quota:
  assumes "''CountPostsToday'' \<notin> set (faults (store s))"
    and "int (length (posts_today (store s) ''bluesky'')) \<ge> MaxPostsPerDay s"
  shows "runPostCycle srt decode h s = s
         \<and> published (runPostCycle srt decode h s) = published s
         \<and> posts_tbl (store (runPostCycle srt decode h s)) = posts_tbl (store s)"
proof -
  have "CountPostsToday (store s) ''bluesky''
        = Inr (int (length (posts_today (store s) ''bluesky'')))"
    using assms(1) by (simp add: CountPostsToday_def)
  then have "runPostCycle srt decode h s = s"
    using assms(2) by (rule runPostCycle_at_limit)
  then show ?thesis by simp
qed

theorem runPostCycle_quota_witness:
  "''CountPostsToday'' \<notin> set (faults (store scheduler_at_limit))
   \<and> int (length (posts_today (store scheduler_at_limit) ''bluesky''))
        \<ge> MaxPostsPerDay scheduler_at_limit
   \<and> runPostCycle insertion_sort decode_example id scheduler_at_limit = scheduler_at_limit
   \<and> published (runPostCycle insertion_sort decode_example id scheduler_at_limit) = []"
proof -
  have h1: "''CountPostsToday'' \<notin> set (faults (store scheduler_at_limit))"
    by (simp add: scheduler_at_limit_def)
  have h2: "int (length (posts_today (store scheduler_at_limit) ''bluesky''))
              \<ge> MaxPostsPerDay scheduler_at_limit"
    using posts_today_example(2) by (simp add: scheduler_at_limit_def scheduler_count_fails_def)
  have p: "published scheduler_at_limit = []"
    by (simp add: scheduler_at_limit_def scheduler_count_fails_def)
  from runPostCycle_quota [OF h1 h2, of insertion_sort decode_example id] h1 h2 p
  show ?thesis by simp
qed

text \<open>
  Claim C10. When the count query returns an error, \<open>runPostCycle\<close> goes on with the rest of
  the cycle, matching and publishing, whatever the number of posts recorded today; and the
  cycle leaves out the rest only after a count that succeeded and reached the limit.
\<close>

theorem runPostCycle_count_error:
  "(CountPostsToday (store s) ''bluesky'' = Inl err \<longrightarrow>
      runPostCycle srt decode h s = post_cycle_body srt decode h s)
   \<and> (runPostCycle srt decode h s \<noteq> post_cycle_body srt decode h s \<longrightarrow>
      (\<exists>n. CountPostsToday (store s) ''bluesky'' = Inr n \<and> n \<ge> MaxPostsPerDay s)
      \<and> runPostCycle srt decode h s = s)"
proof (intro conjI impI)
  assume "CountPostsToday (store s) ''bluesky'' = Inl err"
  then show "runPostCycle srt decode h s = post_cycle_body srt decode h s"
    by (rule runPostCycle_count_fails)
next
  assume d: "runPostCycle srt decode h s \<noteq> post_cycle_body srt decode h s"
  show "\<exists>n. CountPostsToday (store s) ''bluesky'' = Inr n \<and> n \<ge> MaxPostsPerDay s"
  proof (cases "CountPostsToday (store s) ''bluesky''")
    case (Inl e)
    then show ?thesis using d runPostCycle_count_fails by blast
  next
    case (Inr n)
    then show ?thesis using d runPostCycle_below_limit [of s n] by (cases "n < MaxPostsPerDay s") auto
  qed
next
  assume d: "runPostCycle srt decode h s \<noteq> post_cycle_body srt decode h s"
  then show "runPostCycle srt decode h s = s"
    by (auto simp: runPostCycle_def split: sum.splits if_splits)
qed

theorem runPostCycle_count_error_witness:
  "CountPostsToday (store scheduler_count_fails) ''bluesky'' = Inl db_error
   \<and> int (length (posts_today (store scheduler_count_fails) ''bluesky''))
        \<ge> MaxPostsPerDay scheduler_count_fails
   \<and> runPostCycle insertion_sort decode_example id scheduler_count_fails
       = post_cycle_body insertion_sort decode_example id scheduler_count_fails
   \<and> published (post_cycle_body insertion_sort decode_example id scheduler_count_fails)
       = [content_example]
   \<and> runPostCycle insertion_sort decode_example id scheduler_at_limit
       \<noteq> post_cycle_body insertion_sort decode_example id scheduler_at_limit
   \<and> (\<exists>n. CountPostsToday (store scheduler_at_limit) ''bluesky'' = Inr n
           \<and> n \<ge> MaxPostsPerDay scheduler_at_limit)"
proof -
  have c: "CountPostsToday (store scheduler_count_fails) ''bluesky'' = Inl db_error"
    by (rule count_example_fails)
  have q: "int (length (posts_today (store scheduler_count_fails) ''bluesky''))
             \<ge> MaxPostsPerDay scheduler_count_fails"
    using posts_today_example(1) by (simp add: scheduler_count_fails_def)
  have r: "runPostCycle insertion_sort decode_example id scheduler_count_fails
           = post_cycle_body insertion_sort decode_example id scheduler_count_fails"
    using runPostCycle_count_error [of scheduler_count_fails db_error insertion_sort
        decode_example id] c
    by blast
  have p: "published (post_cycle_body insertion_sort decode_example id scheduler_count_fails)
           = [content_example]"
    using post_cycle_body_example by simp
  have "runPostCycle insertion_sort decode_example id scheduler_at_limit = scheduler_at_limit"
    by (simp add: runPostCycle_def CountPostsToday_def posts_today_def scheduler_at_limit_def
        scheduler_count_fails_def store_count_fails_def post_of_today_def day_start_def)
  then have "published (runPostCycle insertion_sort decode_example id scheduler_at_limit) = []"
    by (simp add: scheduler_at_limit_def scheduler_count_fails_def)
  then have d: "runPostCycle insertion_sort decode_example id scheduler_at_limit
           \<noteq> post_cycle_body insertion_sort decode_example id scheduler_at_limit"
    using post_cycle_body_at_limit by auto
  have e: "\<exists>n. CountPostsToday (store scheduler_at_limit) ''bluesky'' = Inr n
              \<and> n \<ge> MaxPostsPerDay scheduler_at_limit"
    using runPostCycle_count_error [of scheduler_at_limit db_error insertion_sort
        decode_example id] d
    by blast
  from c q r p d e show ?thesis by blast
qed

end
